theory Spec2Isabelle
  imports Main "HOL-Library.Word"
begin

section \<open>Data model\<close>

text \<open>
  The four tables of \<^verbatim>\<open>app/models\<close>. A primary key is a UUID (128 bits), a
  timestamp is a point on the server clock, \<^verbatim>\<open>position\<close> is a Python integer.
  Every column of a model is a field of its record; the field \<^verbatim>\<open>id\<close> carries the
  prefix of its table because record fields share one name space.
\<close>

type_synonym uuid = "128 word"
type_synonym datetime = int

datatype PriorityEnum = LOW | MEDIUM | HIGH

record User =
  u_id :: uuid
  u_email :: string
  u_username :: string
  u_hashed_password :: string
  u_full_name :: "string option"
  u_is_active :: bool
  u_is_superuser :: bool
  u_created_at :: datetime
  u_updated_at :: datetime

record Board =
  b_id :: uuid
  b_title :: string
  b_description :: "string option"
  b_owner_id :: uuid
  b_created_at :: datetime
  b_updated_at :: datetime

record List_model =
  l_id :: uuid
  l_title :: string
  l_position :: int
  l_board_id :: uuid
  l_created_at :: datetime
  l_updated_at :: datetime

record Card =
  c_id :: uuid
  c_title :: string
  c_description :: "string option"
  c_position :: int
  c_list_id :: uuid
  c_assigned_to_id :: "uuid option"
  c_due_date :: "datetime option"
  c_priority :: "PriorityEnum option"
  c_created_at :: datetime
  c_updated_at :: datetime

text \<open>
  The database behind a \<^verbatim>\<open>Session\<close>: each table is the sequence of its rows in
  storage order (the order a query without \<^verbatim>\<open>ORDER BY\<close> returns them in).
\<close>

record database =
  tbl_users :: "User list"
  tbl_boards :: "Board list"
  tbl_lists :: "List_model list"
  tbl_cards :: "Card list"

section \<open>Request schemas\<close>

record CardMove =
  move_list_id :: uuid
  move_position :: int

record CardReorder =
  reorder_position :: int

record ListReorder =
  list_reorder_position :: int

record CardUpdate =
  cu_title :: "string option"
  cu_description :: "string option"
  cu_position :: "int option"
  cu_assigned_to_id :: "uuid option"
  cu_due_date :: "datetime option"
  cu_priority :: "PriorityEnum option"

record ListUpdate =
  lu_title :: "string option"
  lu_position :: "int option"

record BoardUpdate =
  bu_title :: "string option"
  bu_description :: "string option"

record UserUpdate =
  uu_email :: "string option"
  uu_username :: "string option"
  uu_full_name :: "string option"
  uu_is_active :: "bool option"

record UserUpdatePassword =
  current_password :: string
  new_password :: string

section \<open>Failures\<close>

text \<open>
  An endpoint fails by raising \<^verbatim>\<open>HTTPException(status_code, detail)\<close>, which the
  caller sees as that status and that detail. Any other exception is not caught by the
  endpoints: \<^verbatim>\<open>AttributeError\<close> (an attribute read on \<^verbatim>\<open>None\<close>),
  \<^verbatim>\<open>DataError\<close> (the database refuses a negative OFFSET or LIMIT),
  \<^verbatim>\<open>IntegrityError\<close> (a unique constraint) and
  \<^verbatim>\<open>InvalidRequestError\<close> (a refresh that finds no row).
\<close>

datatype failure =
    HTTPException nat string
  | AttributeError
  | DataError
  | IntegrityError
  | InvalidRequestError

abbreviation HTTP_400_BAD_REQUEST :: nat where "HTTP_400_BAD_REQUEST \<equiv> 400"
abbreviation HTTP_401_UNAUTHORIZED :: nat where "HTTP_401_UNAUTHORIZED \<equiv> 401"
abbreviation HTTP_403_FORBIDDEN :: nat where "HTTP_403_FORBIDDEN \<equiv> 403"
abbreviation HTTP_404_NOT_FOUND :: nat where "HTTP_404_NOT_FOUND \<equiv> 404"

fun response_status :: "failure + 'a \<Rightarrow> nat option" where
  "response_status (Inl (HTTPException code d)) = Some code"
| "response_status (Inl e) = Some 500"
| "response_status (Inr r) = None"

section \<open>The generic CRUD layer\<close>

text \<open>
  Modelled from the spec: \<^verbatim>\<open>CRUDBase\<close> (\<^verbatim>\<open>app/crud/base.py\<close>), the base
  class of the four CRUD classes, with \<^verbatim>\<open>get\<close>, \<^verbatim>\<open>update\<close> and
  \<^verbatim>\<open>remove\<close>. \<^verbatim>\<open>get(db, id)\<close> is the primary-key lookup: the row
  whose id is the given one, or \<^verbatim>\<open>None\<close> (``entity exists, else NotFound'').
\<close>

definition user_get :: "database \<Rightarrow> uuid \<Rightarrow> User option" where
  "user_get db i = find (\<lambda>r. u_id r = i) (tbl_users db)"

definition board_get :: "database \<Rightarrow> uuid \<Rightarrow> Board option" where
  "board_get db i = find (\<lambda>r. b_id r = i) (tbl_boards db)"

definition list_get :: "database \<Rightarrow> uuid \<Rightarrow> List_model option" where
  "list_get db i = find (\<lambda>r. l_id r = i) (tbl_lists db)"

definition card_get :: "database \<Rightarrow> uuid \<Rightarrow> Card option" where
  "card_get db i = find (\<lambda>r. c_id r = i) (tbl_cards db)"

section \<open>The unit of work\<close>

text \<open>
  \<^verbatim>\<open>db.add(db_obj); db.commit()\<close> on an object loaded in this session: the
  unit of work compares the object with the row it was loaded from and sends one UPDATE
  for the columns whose value differs, in one transaction. An UPDATE sets
  \<^verbatim>\<open>updated_at\<close> to \<^verbatim>\<open>func.now()\<close>, the \<^verbatim>\<open>onupdate\<close>
  default of the column (\<open>touch\<close> below). An object with no net change gets no
  UPDATE, so its row and its \<^verbatim>\<open>updated_at\<close> stay as they are. The UPDATE
  addresses the row by its primary key, the row the object was loaded from.
\<close>

definition flush_row :: "('r \<Rightarrow> uuid) \<Rightarrow> ('r \<Rightarrow> 'r) \<Rightarrow> 'r \<Rightarrow> 'r list \<Rightarrow> 'r list" where
  "flush_row key touch db_obj rows =
     map (\<lambda>r. if key r = key db_obj
               then (if db_obj = r then r else touch db_obj)
               else r)
         rows"

definition card_commit :: "database \<Rightarrow> Card \<Rightarrow> datetime \<Rightarrow> database" where
  "card_commit db db_obj now =
     db\<lparr>tbl_cards := flush_row c_id (\<lambda>obj. obj\<lparr>c_updated_at := now\<rparr>) db_obj (tbl_cards db)\<rparr>"

definition list_commit :: "database \<Rightarrow> List_model \<Rightarrow> datetime \<Rightarrow> database" where
  "list_commit db db_obj now =
     db\<lparr>tbl_lists := flush_row l_id (\<lambda>obj. obj\<lparr>l_updated_at := now\<rparr>) db_obj (tbl_lists db)\<rparr>"

definition board_commit :: "database \<Rightarrow> Board \<Rightarrow> datetime \<Rightarrow> database" where
  "board_commit db db_obj now =
     db\<lparr>tbl_boards := flush_row b_id (\<lambda>obj. obj\<lparr>b_updated_at := now\<rparr>) db_obj (tbl_boards db)\<rparr>"

text \<open>
  On \<^verbatim>\<open>users\<close> the columns \<^verbatim>\<open>email\<close> and \<^verbatim>\<open>username\<close> are
  \<^verbatim>\<open>unique=True\<close>: an UPDATE that would give the row the email or the username
  of another row raises \<^verbatim>\<open>IntegrityError\<close>.
\<close>

definition user_commit :: "database \<Rightarrow> User \<Rightarrow> datetime \<Rightarrow> failure + database" where
  "user_commit db db_obj now =
     (if user_get db (u_id db_obj) = Some db_obj then Inr db
      else if list_ex (\<lambda>r. u_id r \<noteq> u_id db_obj \<and>
                         (u_email r = u_email db_obj \<or> u_username r = u_username db_obj))
                      (tbl_users db)
      then Inl IntegrityError
      else Inr (db\<lparr>tbl_users :=
                   flush_row u_id (\<lambda>obj. obj\<lparr>u_updated_at := now\<rparr>) db_obj (tbl_users db)\<rparr>))"

text \<open>\<^verbatim>\<open>db.refresh(db_obj)\<close> reads the row of the object again.\<close>

definition card_refresh :: "database \<Rightarrow> Card \<Rightarrow> failure + Card" where
  "card_refresh db db_obj =
     (case card_get db (c_id db_obj) of
        None \<Rightarrow> Inl InvalidRequestError
      | Some r \<Rightarrow> Inr r)"

definition list_refresh :: "database \<Rightarrow> List_model \<Rightarrow> failure + List_model" where
  "list_refresh db db_obj =
     (case list_get db (l_id db_obj) of
        None \<Rightarrow> Inl InvalidRequestError
      | Some r \<Rightarrow> Inr r)"

definition board_refresh :: "database \<Rightarrow> Board \<Rightarrow> failure + Board" where
  "board_refresh db db_obj =
     (case board_get db (b_id db_obj) of
        None \<Rightarrow> Inl InvalidRequestError
      | Some r \<Rightarrow> Inr r)"

definition user_refresh :: "database \<Rightarrow> User \<Rightarrow> failure + User" where
  "user_refresh db db_obj =
     (case user_get db (u_id db_obj) of
        None \<Rightarrow> Inl InvalidRequestError
      | Some r \<Rightarrow> Inr r)"

section \<open>CRUDBase.update and CRUDBase.remove\<close>

text \<open>
  Modelled from the spec: \<^verbatim>\<open>CRUDBase.update(db, db_obj, obj_in)\<close>
  (\<^verbatim>\<open>app/crud/base.py\<close>), the update with ``partial fields'': every field the
  request gives is assigned to the object, then the object is committed and refreshed.
  A card's assignee is a reference to a user, so an assignee that is no user violates the
  foreign key.
\<close>

definition assign :: "'v option \<Rightarrow> ('v \<Rightarrow> 'r \<Rightarrow> 'r) \<Rightarrow> 'r \<Rightarrow> 'r" where
  "assign field setter db_obj = (case field of None \<Rightarrow> db_obj | Some v \<Rightarrow> setter v db_obj)"

definition card_update ::
  "database \<Rightarrow> Card \<Rightarrow> CardUpdate \<Rightarrow> datetime \<Rightarrow> failure + (Card \<times> database)" where
  "card_update db db_obj obj_in now =
     (let o1 = assign (cu_title obj_in) (\<lambda>v obj. obj\<lparr>c_title := v\<rparr>) db_obj;
          o2 = assign (cu_description obj_in) (\<lambda>v obj. obj\<lparr>c_description := Some v\<rparr>) o1;
          o3 = assign (cu_position obj_in) (\<lambda>v obj. obj\<lparr>c_position := v\<rparr>) o2;
          o4 = assign (cu_assigned_to_id obj_in) (\<lambda>v obj. obj\<lparr>c_assigned_to_id := Some v\<rparr>) o3;
          o5 = assign (cu_due_date obj_in) (\<lambda>v obj. obj\<lparr>c_due_date := Some v\<rparr>) o4;
          o6 = assign (cu_priority obj_in) (\<lambda>v obj. obj\<lparr>c_priority := Some v\<rparr>) o5
      in if (case c_assigned_to_id o6 of None \<Rightarrow> False | Some a \<Rightarrow> user_get db a = None)
         then Inl IntegrityError
         else let db' = card_commit db o6 now
              in case card_refresh db' o6 of
                   Inl e \<Rightarrow> Inl e
                 | Inr r \<Rightarrow> Inr (r, db'))"

definition list_update ::
  "database \<Rightarrow> List_model \<Rightarrow> ListUpdate \<Rightarrow> datetime \<Rightarrow> failure + (List_model \<times> database)" where
  "list_update db db_obj obj_in now =
     (let o1 = assign (lu_title obj_in) (\<lambda>v obj. obj\<lparr>l_title := v\<rparr>) db_obj;
          o2 = assign (lu_position obj_in) (\<lambda>v obj. obj\<lparr>l_position := v\<rparr>) o1;
          db' = list_commit db o2 now
      in case list_refresh db' o2 of
           Inl e \<Rightarrow> Inl e
         | Inr r \<Rightarrow> Inr (r, db'))"

definition board_update ::
  "database \<Rightarrow> Board \<Rightarrow> BoardUpdate \<Rightarrow> datetime \<Rightarrow> failure + (Board \<times> database)" where
  "board_update db db_obj obj_in now =
     (let o1 = assign (bu_title obj_in) (\<lambda>v obj. obj\<lparr>b_title := v\<rparr>) db_obj;
          o2 = assign (bu_description obj_in) (\<lambda>v obj. obj\<lparr>b_description := Some v\<rparr>) o1;
          db' = board_commit db o2 now
      in case board_refresh db' o2 of
           Inl e \<Rightarrow> Inl e
         | Inr r \<Rightarrow> Inr (r, db'))"

definition user_update ::
  "database \<Rightarrow> User \<Rightarrow> UserUpdate \<Rightarrow> datetime \<Rightarrow> failure + (User \<times> database)" where
  "user_update db db_obj obj_in now =
     (let o1 = assign (uu_email obj_in) (\<lambda>v obj. obj\<lparr>u_email := v\<rparr>) db_obj;
          o2 = assign (uu_username obj_in) (\<lambda>v obj. obj\<lparr>u_username := v\<rparr>) o1;
          o3 = assign (uu_full_name obj_in) (\<lambda>v obj. obj\<lparr>u_full_name := Some v\<rparr>) o2;
          o4 = assign (uu_is_active obj_in) (\<lambda>v obj. obj\<lparr>u_is_active := v\<rparr>) o3
      in case user_commit db o4 now of
           Inl e \<Rightarrow> Inl e
         | Inr db' \<Rightarrow>
             (case user_refresh db' o4 of
                Inl e \<Rightarrow> Inl e
              | Inr r \<Rightarrow> Inr (r, db')))"

text \<open>
  Modelled from the spec: \<^verbatim>\<open>CRUDBase.remove(db, id)\<close>
  (\<^verbatim>\<open>app/crud/base.py\<close>), the delete of one row. Deleting a list deletes its
  cards, deleting a board deletes its lists and their cards (the
  \<^verbatim>\<open>cascade="all, delete-orphan"\<close> of the relationships).
\<close>

definition card_remove :: "database \<Rightarrow> uuid \<Rightarrow> database" where
  "card_remove db i = db\<lparr>tbl_cards := filter (\<lambda>c. c_id c \<noteq> i) (tbl_cards db)\<rparr>"

definition list_remove :: "database \<Rightarrow> uuid \<Rightarrow> database" where
  "list_remove db i =
     db\<lparr>tbl_lists := filter (\<lambda>l. l_id l \<noteq> i) (tbl_lists db),
        tbl_cards := filter (\<lambda>c. c_list_id c \<noteq> i) (tbl_cards db)\<rparr>"

definition board_remove :: "database \<Rightarrow> uuid \<Rightarrow> database" where
  "board_remove db i =
     (let gone = map l_id (filter (\<lambda>l. l_board_id l = i) (tbl_lists db))
      in db\<lparr>tbl_boards := filter (\<lambda>b. b_id b \<noteq> i) (tbl_boards db),
            tbl_lists := filter (\<lambda>l. l_board_id l \<noteq> i) (tbl_lists db),
            tbl_cards := filter (\<lambda>c. c_list_id c \<notin> set gone) (tbl_cards db)\<rparr>)"

section \<open>CRUDCard\<close>

text \<open>
  \<^verbatim>\<open>CRUDCard.move_to_list\<close>: two assignments on the object in memory, then one
  commit and a refresh. The result is the refreshed card and the database after the commit.
\<close>

definition move_to_list ::
  "database \<Rightarrow> Card \<Rightarrow> uuid \<Rightarrow> int \<Rightarrow> datetime \<Rightarrow> failure + (Card \<times> database)" where
  "move_to_list db db_obj list_id position now =
     (let o1 = db_obj\<lparr>c_list_id := list_id\<rparr>;
          o2 = o1\<lparr>c_position := position\<rparr>;
          db' = card_commit db o2 now
      in case card_refresh db' o2 of
           Inl e \<Rightarrow> Inl e
         | Inr r \<Rightarrow> Inr (r, db'))"

text \<open>
  The database as any other session reads it: before \<^verbatim>\<open>move_to_list\<close> and after
  each of its five statements. The two assignments and \<^verbatim>\<open>db.add\<close> touch only the
  object in memory; \<^verbatim>\<open>db.commit()\<close> writes it; \<^verbatim>\<open>db.refresh\<close> reads.
\<close>

definition move_to_list_observed ::
  "database \<Rightarrow> Card \<Rightarrow> uuid \<Rightarrow> int \<Rightarrow> datetime \<Rightarrow> database list" where
  "move_to_list_observed db db_obj list_id position now =
     (let o1 = db_obj\<lparr>c_list_id := list_id\<rparr>;
          o2 = o1\<lparr>c_position := position\<rparr>;
          db' = card_commit db o2 now
      in [db, db, db, db, db', db'])"

text \<open>\<^verbatim>\<open>CRUDCard.reorder\<close>.\<close>

definition card_reorder ::
  "database \<Rightarrow> Card \<Rightarrow> int \<Rightarrow> datetime \<Rightarrow> failure + (Card \<times> database)" where
  "card_reorder db db_obj new_position now =
     (let o1 = db_obj\<lparr>c_position := new_position\<rparr>;
          db' = card_commit db o1 now
      in case card_refresh db' o1 of
           Inl e \<Rightarrow> Inl e
         | Inr r \<Rightarrow> Inr (r, db'))"

section \<open>CRUDList, CRUDBoard, CRUDUser\<close>

text \<open>\<^verbatim>\<open>CRUDList.reorder\<close>.\<close>

definition list_reorder ::
  "database \<Rightarrow> List_model \<Rightarrow> int \<Rightarrow> datetime \<Rightarrow> failure + (List_model \<times> database)" where
  "list_reorder db db_obj new_position now =
     (let o1 = db_obj\<lparr>l_position := new_position\<rparr>;
          db' = list_commit db o1 now
      in case list_refresh db' o1 of
           Inl e \<Rightarrow> Inl e
         | Inr r \<Rightarrow> Inr (r, db'))"

text \<open>
  \<^verbatim>\<open>CRUDBoard.get_multi_by_owner\<close>: the filter on \<^verbatim>\<open>owner_id\<close>, then
  \<^verbatim>\<open>offset(skip)\<close> and \<^verbatim>\<open>limit(limit)\<close>. Both are Python integers that the
  endpoint does not validate; the database refuses a negative one.
\<close>

definition get_multi_by_owner :: "database \<Rightarrow> uuid \<Rightarrow> int \<Rightarrow> int \<Rightarrow> failure + Board list" where
  "get_multi_by_owner db owner_id skip limit =
     (if skip < 0 \<or> limit < 0 then Inl DataError
      else Inr (take (nat limit) (drop (nat skip)
                  (filter (\<lambda>b. b_owner_id b = owner_id) (tbl_boards db)))))"

text \<open>
  \<^verbatim>\<open>CRUDUser.get_by_email\<close> and \<^verbatim>\<open>CRUDUser.get_by_username\<close>: the first
  row of the filter.
\<close>

definition get_by_email :: "database \<Rightarrow> string \<Rightarrow> User option" where
  "get_by_email db email = find (\<lambda>r. u_email r = email) (tbl_users db)"

definition get_by_username :: "database \<Rightarrow> string \<Rightarrow> User option" where
  "get_by_username db username = find (\<lambda>r. u_username r = username) (tbl_users db)"

text \<open>
  \<^verbatim>\<open>CRUDUser.update_password\<close>. The hash function
  \<^verbatim>\<open>get_password_hash\<close> of \<^verbatim>\<open>app/core/security.py\<close> is a parameter.
\<close>

definition update_password ::
  "(string \<Rightarrow> string) \<Rightarrow> database \<Rightarrow> User \<Rightarrow> string \<Rightarrow> datetime \<Rightarrow> failure + (User \<times> database)" where
  "update_password get_password_hash db user new_pw now =
     (let o1 = user\<lparr>u_hashed_password := get_password_hash new_pw\<rparr>
      in case user_commit db o1 now of
           Inl e \<Rightarrow> Inl e
         | Inr db' \<Rightarrow>
             (case user_refresh db' o1 of
                Inl e \<Rightarrow> Inl e
              | Inr r \<Rightarrow> Inr (r, db')))"

section \<open>Card endpoints\<close>

text \<open>
  In every endpoint below, reading \<^verbatim>\<open>.board_id\<close> of a list that is
  \<^verbatim>\<open>None\<close> or \<^verbatim>\<open>.owner_id\<close> of a board that is \<^verbatim>\<open>None\<close>
  raises \<^verbatim>\<open>AttributeError\<close>.
\<close>

text \<open>\<^verbatim>\<open>update_card\<close> (\<^verbatim>\<open>PUT /cards/{card_id}\<close>).\<close>

definition update_card ::
  "database \<Rightarrow> uuid \<Rightarrow> CardUpdate \<Rightarrow> User \<Rightarrow> datetime \<Rightarrow> failure + (Card \<times> database)" where
  "update_card db card_id card_in current_user now =
     (case card_get db card_id of
        None \<Rightarrow> Inl (HTTPException HTTP_404_NOT_FOUND ''Card not found'')
      | Some card_obj \<Rightarrow>
     (case list_get db (c_list_id card_obj) of
        None \<Rightarrow> Inl AttributeError
      | Some list_obj \<Rightarrow>
     (case board_get db (l_board_id list_obj) of
        None \<Rightarrow> Inl AttributeError
      | Some board \<Rightarrow>
        if b_owner_id board \<noteq> u_id current_user
        then Inl (HTTPException HTTP_403_FORBIDDEN ''Not authorized to update this card'')
        else card_update db card_obj card_in now)))"

text \<open>\<^verbatim>\<open>delete_card\<close> (\<^verbatim>\<open>DELETE /cards/{card_id}\<close>).\<close>

definition delete_card :: "database \<Rightarrow> uuid \<Rightarrow> User \<Rightarrow> failure + database" where
  "delete_card db card_id current_user =
     (case card_get db card_id of
        None \<Rightarrow> Inl (HTTPException HTTP_404_NOT_FOUND ''Card not found'')
      | Some card_obj \<Rightarrow>
     (case list_get db (c_list_id card_obj) of
        None \<Rightarrow> Inl AttributeError
      | Some list_obj \<Rightarrow>
     (case board_get db (l_board_id list_obj) of
        None \<Rightarrow> Inl AttributeError
      | Some board \<Rightarrow>
        if b_owner_id board \<noteq> u_id current_user
        then Inl (HTTPException HTTP_403_FORBIDDEN ''Not authorized to delete this card'')
        else Inr (card_remove db card_id))))"

text \<open>\<^verbatim>\<open>move_card\<close> (\<^verbatim>\<open>PATCH /cards/{card_id}/move\<close>).\<close>

definition move_card ::
  "database \<Rightarrow> uuid \<Rightarrow> CardMove \<Rightarrow> User \<Rightarrow> datetime \<Rightarrow> failure + (Card \<times> database)" where
  "move_card db card_id move_data current_user now =
     (case card_get db card_id of
        None \<Rightarrow> Inl (HTTPException HTTP_404_NOT_FOUND ''Card not found'')
      | Some card_obj \<Rightarrow>
     (case list_get db (c_list_id card_obj) of
        None \<Rightarrow> Inl AttributeError
      | Some current_list \<Rightarrow>
     (case board_get db (l_board_id current_list) of
        None \<Rightarrow> Inl AttributeError
      | Some current_board \<Rightarrow>
        if b_owner_id current_board \<noteq> u_id current_user
        then Inl (HTTPException HTTP_403_FORBIDDEN ''Not authorized to move this card'')
        else
     (case list_get db (move_list_id move_data) of
        None \<Rightarrow> Inl (HTTPException HTTP_404_NOT_FOUND ''Target list not found'')
      | Some target_list \<Rightarrow>
        if l_board_id target_list \<noteq> b_id current_board
        then Inl (HTTPException HTTP_400_BAD_REQUEST
                    ''Cannot move card to a list in a different board'')
        else move_to_list db card_obj (move_list_id move_data) (move_position move_data) now))))"

text \<open>\<^verbatim>\<open>reorder_card\<close> (\<^verbatim>\<open>PATCH /cards/{card_id}/reorder\<close>).\<close>

definition reorder_card ::
  "database \<Rightarrow> uuid \<Rightarrow> CardReorder \<Rightarrow> User \<Rightarrow> datetime \<Rightarrow> failure + (Card \<times> database)" where
  "reorder_card db card_id reorder_data current_user now =
     (case card_get db card_id of
        None \<Rightarrow> Inl (HTTPException HTTP_404_NOT_FOUND ''Card not found'')
      | Some card_obj \<Rightarrow>
     (case list_get db (c_list_id card_obj) of
        None \<Rightarrow> Inl AttributeError
      | Some list_obj \<Rightarrow>
     (case board_get db (l_board_id list_obj) of
        None \<Rightarrow> Inl AttributeError
      | Some board \<Rightarrow>
        if b_owner_id board \<noteq> u_id current_user
        then Inl (HTTPException HTTP_403_FORBIDDEN ''Not authorized to reorder this card'')
        else card_reorder db card_obj (reorder_position reorder_data) now)))"

text \<open>
  The database a request leaves behind: the one its result carries, or the one it started
  from when it failed (nothing was committed).
\<close>

fun state_after :: "database \<Rightarrow> failure + ('a \<times> database) \<Rightarrow> database" where
  "state_after db (Inl e) = db"
| "state_after db (Inr (r, db')) = db'"

section \<open>List endpoints\<close>

text \<open>\<^verbatim>\<open>update_list\<close> (\<^verbatim>\<open>PUT /lists/{list_id}\<close>).\<close>

definition update_list ::
  "database \<Rightarrow> uuid \<Rightarrow> ListUpdate \<Rightarrow> User \<Rightarrow> datetime \<Rightarrow> failure + (List_model \<times> database)" where
  "update_list db list_id list_in current_user now =
     (case list_get db list_id of
        None \<Rightarrow> Inl (HTTPException HTTP_404_NOT_FOUND ''List not found'')
      | Some list_obj \<Rightarrow>
     (case board_get db (l_board_id list_obj) of
        None \<Rightarrow> Inl AttributeError
      | Some board \<Rightarrow>
        if b_owner_id board \<noteq> u_id current_user
        then Inl (HTTPException HTTP_403_FORBIDDEN ''Not authorized to update this list'')
        else list_update db list_obj list_in now))"

text \<open>\<^verbatim>\<open>delete_list\<close> (\<^verbatim>\<open>DELETE /lists/{list_id}\<close>).\<close>

definition delete_list :: "database \<Rightarrow> uuid \<Rightarrow> User \<Rightarrow> failure + database" where
  "delete_list db list_id current_user =
     (case list_get db list_id of
        None \<Rightarrow> Inl (HTTPException HTTP_404_NOT_FOUND ''List not found'')
      | Some list_obj \<Rightarrow>
     (case board_get db (l_board_id list_obj) of
        None \<Rightarrow> Inl AttributeError
      | Some board \<Rightarrow>
        if b_owner_id board \<noteq> u_id current_user
        then Inl (HTTPException HTTP_403_FORBIDDEN ''Not authorized to delete this list'')
        else Inr (list_remove db list_id)))"

text \<open>\<^verbatim>\<open>reorder_list\<close> (\<^verbatim>\<open>PATCH /lists/{list_id}/reorder\<close>).\<close>

definition reorder_list ::
  "database \<Rightarrow> uuid \<Rightarrow> ListReorder \<Rightarrow> User \<Rightarrow> datetime \<Rightarrow> failure + (List_model \<times> database)" where
  "reorder_list db list_id reorder_data current_user now =
     (case list_get db list_id of
        None \<Rightarrow> Inl (HTTPException HTTP_404_NOT_FOUND ''List not found'')
      | Some list_obj \<Rightarrow>
     (case board_get db (l_board_id list_obj) of
        None \<Rightarrow> Inl AttributeError
      | Some board \<Rightarrow>
        if b_owner_id board \<noteq> u_id current_user
        then Inl (HTTPException HTTP_403_FORBIDDEN ''Not authorized to reorder this list'')
        else list_reorder db list_obj (list_reorder_position reorder_data) now))"

section \<open>Board endpoints\<close>

text \<open>\<^verbatim>\<open>list_boards\<close> (\<^verbatim>\<open>GET /boards/\<close>), with its defaults.\<close>

definition list_boards :: "database \<Rightarrow> int \<Rightarrow> int \<Rightarrow> User \<Rightarrow> failure + Board list" where
  "list_boards db skip limit current_user =
     get_multi_by_owner db (u_id current_user) skip limit"

definition default_skip :: int where "default_skip = 0"
definition default_limit :: int where "default_limit = 100"

text \<open>\<^verbatim>\<open>update_board\<close> (\<^verbatim>\<open>PUT /boards/{board_id}\<close>).\<close>

definition update_board ::
  "database \<Rightarrow> uuid \<Rightarrow> BoardUpdate \<Rightarrow> User \<Rightarrow> datetime \<Rightarrow> failure + (Board \<times> database)" where
  "update_board db board_id board_in current_user now =
     (case board_get db board_id of
        None \<Rightarrow> Inl (HTTPException HTTP_404_NOT_FOUND ''Board not found'')
      | Some board \<Rightarrow>
        if b_owner_id board \<noteq> u_id current_user
        then Inl (HTTPException HTTP_403_FORBIDDEN ''Not authorized to update this board'')
        else board_update db board board_in now)"

text \<open>\<^verbatim>\<open>delete_board\<close> (\<^verbatim>\<open>DELETE /boards/{board_id}\<close>).\<close>

definition delete_board :: "database \<Rightarrow> uuid \<Rightarrow> User \<Rightarrow> failure + database" where
  "delete_board db board_id current_user =
     (case board_get db board_id of
        None \<Rightarrow> Inl (HTTPException HTTP_404_NOT_FOUND ''Board not found'')
      | Some board \<Rightarrow>
        if b_owner_id board \<noteq> u_id current_user
        then Inl (HTTPException HTTP_403_FORBIDDEN ''Not authorized to delete this board'')
        else Inr (board_remove db board_id))"

section \<open>Authentication dependencies and user endpoints\<close>

text \<open>
  \<^verbatim>\<open>get_current_user\<close> (\<^verbatim>\<open>app/api/deps.py\<close>). The two functions it calls
  that are not in the repository's sources are parameters:
  \<^verbatim>\<open>decode_access_token\<close> (\<^verbatim>\<open>app/core/security.py\<close>), which gives the
  subject of a valid token, and the parser \<^verbatim>\<open>UUID(...)\<close>, where
  \<^verbatim>\<open>None\<close> stands for its \<^verbatim>\<open>ValueError\<close>.
\<close>

definition credentials_exception :: failure where
  "credentials_exception = HTTPException HTTP_401_UNAUTHORIZED ''Could not validate credentials''"

definition get_current_user ::
  "(string \<Rightarrow> string option) \<Rightarrow> (string \<Rightarrow> uuid option) \<Rightarrow> database \<Rightarrow> string \<Rightarrow> failure + User" where
  "get_current_user decode_access_token UUID db token =
     (case decode_access_token token of
        None \<Rightarrow> Inl credentials_exception
      | Some user_id_str \<Rightarrow>
     (case UUID user_id_str of
        None \<Rightarrow> Inl credentials_exception
      | Some user_id \<Rightarrow>
     (case user_get db user_id of
        None \<Rightarrow> Inl credentials_exception
      | Some user \<Rightarrow> Inr user)))"

text \<open>\<^verbatim>\<open>get_current_active_user\<close> (\<^verbatim>\<open>app/api/deps.py\<close>).\<close>

definition get_current_active_user :: "User \<Rightarrow> failure + User" where
  "get_current_active_user current_user =
     (if \<not> u_is_active current_user
      then Inl (HTTPException HTTP_400_BAD_REQUEST ''Inactive user'')
      else Inr current_user)"

text \<open>
  \<^verbatim>\<open>update_user_me\<close> (\<^verbatim>\<open>PUT /users/me\<close>). A Python string is true when it
  is not empty, and an absent field is \<^verbatim>\<open>None\<close>, which is false.
\<close>

definition update_user_me ::
  "database \<Rightarrow> UserUpdate \<Rightarrow> User \<Rightarrow> datetime \<Rightarrow> failure + (User \<times> database)" where
  "update_user_me db user_in current_user now =
     (if (case uu_email user_in of
            None \<Rightarrow> False
          | Some email \<Rightarrow> email \<noteq> [] \<and> email \<noteq> u_email current_user \<and>
                          get_by_email db email \<noteq> None)
      then Inl (HTTPException HTTP_400_BAD_REQUEST ''Email already registered'')
      else if (case uu_username user_in of
                 None \<Rightarrow> False
               | Some username \<Rightarrow> username \<noteq> [] \<and> username \<noteq> u_username current_user \<and>
                                  get_by_username db username \<noteq> None)
      then Inl (HTTPException HTTP_400_BAD_REQUEST ''Username already taken'')
      else user_update db current_user user_in now)"

text \<open>
  \<^verbatim>\<open>update_password_me\<close> (\<^verbatim>\<open>PATCH /users/me/password\<close>).
  \<^verbatim>\<open>verify_password\<close> of \<^verbatim>\<open>app/core/security.py\<close> is a parameter.
\<close>

definition update_password_me ::
  "(string \<Rightarrow> string \<Rightarrow> bool) \<Rightarrow> (string \<Rightarrow> string) \<Rightarrow> database \<Rightarrow> UserUpdatePassword \<Rightarrow> User
     \<Rightarrow> datetime \<Rightarrow> failure + (User \<times> database)" where
  "update_password_me verify_password get_password_hash db password_in current_user now =
     (if \<not> verify_password (current_password password_in) (u_hashed_password current_user)
      then Inl (HTTPException HTTP_400_BAD_REQUEST ''Incorrect password'')
      else update_password get_password_hash db current_user (new_password password_in) now)"

section \<open>Constraints of the schema\<close>

text \<open>
  The constraints the models declare and the database keeps:
  \<^verbatim>\<open>cards.list_id\<close> and \<^verbatim>\<open>lists.board_id\<close> are foreign keys that
  are not nullable, \<^verbatim>\<open>users.email\<close> and \<^verbatim>\<open>users.username\<close> are
  unique. Every \<^verbatim>\<open>id\<close> is a primary key, so the ids of a table are distinct.
\<close>

definition foreign_keys :: "database \<Rightarrow> bool" where
  "foreign_keys db \<longleftrightarrow>
     list_all (\<lambda>c. list_get db (c_list_id c) \<noteq> None) (tbl_cards db) \<and>
     list_all (\<lambda>l. board_get db (l_board_id l) \<noteq> None) (tbl_lists db)"

definition unique_users :: "database \<Rightarrow> bool" where
  "unique_users db \<longleftrightarrow>
     distinct (map u_email (tbl_users db)) \<and> distinct (map u_username (tbl_users db))"

section \<open>A small database\<close>

text \<open>
  Two users. Alice owns the boards 10 and 11, Bob owns the board 12. Board 10 has the
  lists 20 and 21, board 11 has the list 22, board 12 has the list 23. List 20 holds the
  cards 30 and 31, at the positions 0 and 1; list 23 holds the card 32.
\<close>

definition alice :: User where
  "alice = \<lparr>u_id = 1, u_email = ''alice@example.com'', u_username = ''alice'',
            u_hashed_password = ''secret-a'', u_full_name = None, u_is_active = True,
            u_is_superuser = False, u_created_at = 0, u_updated_at = 0\<rparr>"

definition bob :: User where
  "bob = \<lparr>u_id = 2, u_email = ''bob@example.com'', u_username = ''bob'',
          u_hashed_password = ''secret-b'', u_full_name = None, u_is_active = True,
          u_is_superuser = False, u_created_at = 0, u_updated_at = 0\<rparr>"

definition example_board :: "uuid \<Rightarrow> uuid \<Rightarrow> Board" where
  "example_board i owner =
     \<lparr>b_id = i, b_title = ''B'', b_description = None, b_owner_id = owner,
      b_created_at = 0, b_updated_at = 0\<rparr>"

definition example_list :: "uuid \<Rightarrow> uuid \<Rightarrow> int \<Rightarrow> List_model" where
  "example_list i board_id position =
     \<lparr>l_id = i, l_title = ''L'', l_position = position, l_board_id = board_id,
      l_created_at = 0, l_updated_at = 0\<rparr>"

definition example_card :: "uuid \<Rightarrow> uuid \<Rightarrow> int \<Rightarrow> Card" where
  "example_card i list_id position =
     \<lparr>c_id = i, c_title = ''C'', c_description = None, c_position = position,
      c_list_id = list_id, c_assigned_to_id = None, c_due_date = None, c_priority = None,
      c_created_at = 0, c_updated_at = 0\<rparr>"

definition example_db :: database where
  "example_db =
     \<lparr>tbl_users = [alice, bob],
      tbl_boards = [example_board 10 1, example_board 11 1, example_board 12 2],
      tbl_lists = [example_list 20 10 0, example_list 21 10 1, example_list 22 11 0,
                   example_list 23 12 0],
      tbl_cards = [example_card 30 20 0, example_card 31 20 1, example_card 32 23 0]\<rparr>"

text \<open>
  A database where Alice owns 101 boards, one more than the default
  \<^verbatim>\<open>limit\<close> of \<^verbatim>\<open>list_boards\<close>; board \<open>n\<close> was created at time \<open>n\<close>.
\<close>

definition numbered_board :: "nat \<Rightarrow> Board" where
  "numbered_board n =
     \<lparr>b_id = of_nat n, b_title = ''B'', b_description = None, b_owner_id = 1,
      b_created_at = int n, b_updated_at = int n\<rparr>"

definition many_boards_db :: database where
  "many_boards_db =
     \<lparr>tbl_users = [alice], tbl_boards = map numbered_board [0..<101],
      tbl_lists = [], tbl_cards = []\<rparr>"

text \<open>
  A password scheme for the examples, in place of the two functions of
  \<^verbatim>\<open>app/core/security.py\<close>: the hash of a password is the password.
\<close>

definition example_hash :: "string \<Rightarrow> string" where
  "example_hash plain = plain"

definition example_verify :: "string \<Rightarrow> string \<Rightarrow> bool" where
  "example_verify plain hashed \<longleftrightarrow> example_hash plain = hashed"

text \<open>
  Token decoding for the examples, in place of \<^verbatim>\<open>decode_access_token\<close> and
  \<^verbatim>\<open>UUID\<close>: the token \<^verbatim>\<open>alice-token\<close> carries the subject
  \<^verbatim>\<open>1\<close>, the id of Alice; every other token is invalid.
\<close>

definition example_decode :: "string \<Rightarrow> string option" where
  "example_decode token = (if token = ''alice-token'' then Some ''1'' else None)"

definition example_UUID :: "string \<Rightarrow> uuid option" where
  "example_UUID s = (if s = ''1'' then Some 1 else None)"

section \<open>Lookups after a commit\<close>

lemma find_map_key:
  assumes "\<And>r. k (f r) = k r"
  shows "find (\<lambda>r. k r = i) (map f xs) = map_option f (find (\<lambda>r. k r = i) xs)"
  using assms by (induction xs) simp_all

lemma find_key_Some: "find (\<lambda>r. k r = i) xs = Some x \<Longrightarrow> k x = i \<and> x \<in> set xs"
  by (induction xs) (auto split: if_splits)

lemma flush_row_keys: "(\<And>r. key (touch r) = key r) \<Longrightarrow> map key (flush_row key touch obj rows) = map key rows"
  by (induction rows) (auto simp: flush_row_def)

lemma find_flush_row:
  assumes "\<And>r. key (touch r) = key r"
  shows "find (\<lambda>r. key r = i) (flush_row key touch obj rows) =
         map_option (\<lambda>r. if key r = key obj then (if obj = r then r else touch obj) else r)
           (find (\<lambda>r. key r = i) rows)"
  unfolding flush_row_def using assms
  by (intro find_map_key) auto

lemma card_get_commit:
  "card_get (card_commit db obj now) i =
     map_option (\<lambda>r. if c_id r = c_id obj
                      then (if obj = r then r else obj\<lparr>c_updated_at := now\<rparr>)
                      else r)
                (card_get db i)"
  unfolding card_get_def card_commit_def
  by (simp add: find_flush_row)

lemma card_get_id: "card_get db i = Some c \<Longrightarrow> c_id c = i"
  unfolding card_get_def by (drule find_key_Some) simp

lemma card_commit_gets:
  "list_get (card_commit db obj now) i = list_get db i"
  "board_get (card_commit db obj now) i = board_get db i"
  "user_get (card_commit db obj now) i = user_get db i"
  by (simp_all add: list_get_def board_get_def user_get_def card_commit_def)

lemma card_reorder_loaded:
  assumes "card_get db i = Some c"
  shows "card_reorder db c p now =
           Inr (if c_position c = p then c else c\<lparr>c_position := p, c_updated_at := now\<rparr>,
                card_commit db (c\<lparr>c_position := p\<rparr>) now)"
proof -
  have i: "c_id c = i" using assms by (rule card_get_id)
  have eq: "(c\<lparr>c_position := p\<rparr> = c) = (c_position c = p)"
    by (cases c) auto
  show ?thesis
    using assms i eq
    by (auto simp: card_reorder_def card_refresh_def card_get_commit Let_def)
qed

lemma move_to_list_loaded:
  assumes "card_get db i = Some c"
  shows "move_to_list db c l p now =
           Inr (if c_list_id c = l \<and> c_position c = p then c
                else c\<lparr>c_list_id := l, c_position := p, c_updated_at := now\<rparr>,
                card_commit db (c\<lparr>c_list_id := l, c_position := p\<rparr>) now)"
proof -
  have i: "c_id c = i" using assms by (rule card_get_id)
  have eq: "(c\<lparr>c_list_id := l, c_position := p\<rparr> = c) = (c_list_id c = l \<and> c_position c = p)"
    by (cases c) auto
  show ?thesis
    using assms i eq
    by (auto simp: move_to_list_def card_refresh_def card_get_commit Let_def)
qed

lemma flush_row_nth:
  "n < length rows \<Longrightarrow> key (rows ! n) \<noteq> key obj \<Longrightarrow>
     flush_row key touch obj rows ! n = rows ! n"
  by (simp add: flush_row_def)

lemma flush_row_length: "length (flush_row key touch obj rows) = length rows"
  by (simp add: flush_row_def)

lemma distinct_key_unique:
  assumes "distinct (map key rows)" "x \<in> set rows" "y \<in> set rows" "key x = key y"
  shows "x = y"
  using assms by (meson distinct_map inj_onD)

lemma flush_row_stored:
  assumes "distinct (map key rows)" "obj \<in> set rows"
  shows "flush_row key touch obj rows = rows"
proof -
  have "\<And>r. r \<in> set rows \<Longrightarrow> key r = key obj \<Longrightarrow> obj = r"
    using assms distinct_key_unique by metis
  then show ?thesis unfolding flush_row_def by (intro map_idI) auto
qed

section \<open>Reordering a card\<close>

lemma reorder_card_Inr:
  assumes "reorder_card db i rd cu now = Inr x"
  shows "\<exists>c l b. card_get db i = Some c \<and> list_get db (c_list_id c) = Some l \<and>
            board_get db (l_board_id l) = Some b \<and> b_owner_id b = u_id cu \<and>
            card_reorder db c (reorder_position rd) now = Inr x"
  using assms by (auto simp: reorder_card_def split: option.splits if_splits)

lemma reorder_card_Inl_time:
  assumes "reorder_card db i rd cu t1 = Inl e"
  shows "reorder_card db i rd cu t2 = Inl e"
  using assms
  by (auto simp: reorder_card_def card_reorder_loaded split: option.splits if_splits)

lemma reorder_card_success:
  assumes "reorder_card db i rd cu now = Inr (c', db')"
  shows "\<exists>c l b. card_get db i = Some c \<and> list_get db (c_list_id c) = Some l \<and>
            board_get db (l_board_id l) = Some b \<and> b_owner_id b = u_id cu \<and>
            c' = (if c_position c = reorder_position rd then c
                  else c\<lparr>c_position := reorder_position rd, c_updated_at := now\<rparr>) \<and>
            db' = card_commit db (c\<lparr>c_position := reorder_position rd\<rparr>) now \<and>
            card_get db' i = Some c'"
proof -
  let ?p = "reorder_position rd"
  from reorder_card_Inr [OF assms] obtain c l b where
    c: "card_get db i = Some c" and l: "list_get db (c_list_id c) = Some l" and
    b: "board_get db (l_board_id l) = Some b" and own: "b_owner_id b = u_id cu" and
    r: "card_reorder db c ?p now = Inr (c', db')"
    by blast
  have i: "c_id c = i" using c by (rule card_get_id)
  from r have c': "c' = (if c_position c = ?p then c else c\<lparr>c_position := ?p, c_updated_at := now\<rparr>)"
    and db': "db' = card_commit db (c\<lparr>c_position := ?p\<rparr>) now"
    by (simp_all add: card_reorder_loaded [OF c])
  have eq: "(c\<lparr>c_position := ?p\<rparr> = c) = (c_position c = ?p)"
    by (cases c) auto
  have "card_get db' i = Some c'"
    using c i eq by (auto simp: db' c' card_get_commit)
  with c l b own c' db' show ?thesis by blast
qed

text \<open>
  C6. \<^verbatim>\<open>reorder(cardId, newPosition)\<close> is a raw assignment on the one card: when
  it succeeds, the returned card is the stored card, its position is the new position,
  its list is the list it had, the table of cards keeps its length and every row with
  another id is unchanged (no sibling is renumbered, in any list), and the lists, boards
  and users are untouched.
\<close>

theorem reorder_card_frame:
  assumes "reorder_card db card_id reorder_data current_user now = Inr (c', db')"
  shows "card_get db' card_id = Some c' \<and>
         c_position c' = reorder_position reorder_data \<and>
         (\<exists>c. card_get db card_id = Some c \<and> c_list_id c' = c_list_id c) \<and>
         length (tbl_cards db') = length (tbl_cards db) \<and>
         (\<forall>n < length (tbl_cards db).
             c_id (tbl_cards db ! n) \<noteq> card_id \<longrightarrow> tbl_cards db' ! n = tbl_cards db ! n) \<and>
         tbl_lists db' = tbl_lists db \<and> tbl_boards db' = tbl_boards db \<and>
         tbl_users db' = tbl_users db"
proof -
  let ?p = "reorder_position reorder_data"
  from reorder_card_success [OF assms] obtain c where
    c: "card_get db card_id = Some c" and
    c': "c' = (if c_position c = ?p then c else c\<lparr>c_position := ?p, c_updated_at := now\<rparr>)" and
    db': "db' = card_commit db (c\<lparr>c_position := ?p\<rparr>) now" and
    1: "card_get db' card_id = Some c'"
    by blast
  have i: "c_id c = card_id" using c by (rule card_get_id)
  have 2: "c_position c' = ?p" by (simp add: c')
  have 3: "c_list_id c' = c_list_id c" by (simp add: c')
  have 4: "length (tbl_cards db') = length (tbl_cards db)"
    by (simp add: db' card_commit_def flush_row_length)
  have 5: "\<forall>n < length (tbl_cards db).
             c_id (tbl_cards db ! n) \<noteq> card_id \<longrightarrow> tbl_cards db' ! n = tbl_cards db ! n"
    using i by (simp add: db' card_commit_def flush_row_nth)
  have 6: "tbl_lists db' = tbl_lists db \<and> tbl_boards db' = tbl_boards db \<and>
         tbl_users db' = tbl_users db"
    by (simp add: db' card_commit_def)
  from 1 2 3 4 5 6 c show ?thesis by blast
qed

text \<open>
  Alice reorders card 30 to position 1, the position its sibling card 31 already has:
  card 30 takes the position and card 31 keeps its row.
\<close>

theorem reorder_card_frame_witness:
  "reorder_card example_db 30 \<lparr>reorder_position = 1\<rparr> alice 7 =
     Inr ((example_card 30 20 1)\<lparr>c_updated_at := 7\<rparr>,
          example_db\<lparr>tbl_cards := [(example_card 30 20 1)\<lparr>c_updated_at := 7\<rparr>,
                                   example_card 31 20 1, example_card 32 23 0]\<rparr>) \<and>
   card_get (example_db\<lparr>tbl_cards := [(example_card 30 20 1)\<lparr>c_updated_at := 7\<rparr>,
                                   example_card 31 20 1, example_card 32 23 0]\<rparr>) 30 =
     Some ((example_card 30 20 1)\<lparr>c_updated_at := 7\<rparr>) \<and>
   c_position ((example_card 30 20 1)\<lparr>c_updated_at := 7\<rparr>) = 1"
proof -
  have r: "reorder_card example_db 30 \<lparr>reorder_position = 1\<rparr> alice 7 =
     Inr ((example_card 30 20 1)\<lparr>c_updated_at := 7\<rparr>,
          example_db\<lparr>tbl_cards := [(example_card 30 20 1)\<lparr>c_updated_at := 7\<rparr>,
                                   example_card 31 20 1, example_card 32 23 0]\<rparr>)"
    by (simp add: reorder_card_def card_get_def list_get_def board_get_def example_db_def
        example_card_def example_list_def example_board_def alice_def card_reorder_def
        card_commit_def flush_row_def card_refresh_def)
  from reorder_card_frame [OF r] r show ?thesis by simp
qed

text \<open>
  C7. Reorder is idempotent. On a table of cards whose ids are distinct (the primary
  key), a second \<^verbatim>\<open>reorder_card\<close> with the same position, made at any later time
  \<open>t2\<close> on the database the first call left, gives the response of the first call and
  leaves that database as it is: the position is already the requested one, so the second
  call writes nothing and \<^verbatim>\<open>updated_at\<close> keeps the time of the first call.
\<close>

theorem reorder_card_idempotent:
  assumes "distinct (map c_id (tbl_cards db))"
  shows "reorder_card (state_after db (reorder_card db card_id reorder_data current_user t1))
           card_id reorder_data current_user t2
         = reorder_card db card_id reorder_data current_user t1"
proof (cases "reorder_card db card_id reorder_data current_user t1")
  case (Inl e)
  then show ?thesis using reorder_card_Inl_time [OF Inl, of t2] by simp
next
  case (Inr x)
  obtain c1 db1 where x: "x = (c1, db1)" by (cases x)
  let ?p = "reorder_position reorder_data"
  from reorder_card_success [OF Inr [unfolded x]] obtain c l b where
    c: "card_get db card_id = Some c" and l: "list_get db (c_list_id c) = Some l" and
    b: "board_get db (l_board_id l) = Some b" and own: "b_owner_id b = u_id current_user" and
    c1_eq: "c1 = (if c_position c = ?p then c else c\<lparr>c_position := ?p, c_updated_at := t1\<rparr>)" and
    db1: "db1 = card_commit db (c\<lparr>c_position := ?p\<rparr>) t1" and
    c1: "card_get db1 card_id = Some c1"
    by blast
  have p1: "c_position c1 = ?p" and l1: "c_list_id c1 = c_list_id c"
    by (simp_all add: c1_eq)
  have keys: "distinct (map c_id (tbl_cards db1))"
    using assms by (simp add: db1 card_commit_def flush_row_keys)
  have mem: "c1 \<in> set (tbl_cards db1)"
    using find_key_Some [OF c1 [unfolded card_get_def]] by simp
  have same: "c1\<lparr>c_position := ?p\<rparr> = c1" using p1 by (cases c1) auto
  have stay: "card_commit db1 c1 t2 = db1"
    by (simp add: card_commit_def flush_row_stored [OF keys mem])
  have "reorder_card db1 card_id reorder_data current_user t2 = card_reorder db1 c1 ?p t2"
    using c1 l b own by (simp add: reorder_card_def l1 db1 card_commit_gets)
  also have "\<dots> = Inr (c1, db1)"
    using p1 by (simp add: card_reorder_loaded [OF c1] same stay)
  finally show ?thesis by (simp add: Inr x)
qed

text \<open>
  Alice reorders card 30 to position 5 at time 7 and again at time 9: the second response
  is the first one, with \<^verbatim>\<open>updated_at\<close> still 7.
\<close>

theorem reorder_card_idempotent_witness:
  "distinct (map c_id (tbl_cards example_db)) \<and>
   reorder_card (state_after example_db
                   (reorder_card example_db 30 \<lparr>reorder_position = 5\<rparr> alice 7))
      30 \<lparr>reorder_position = 5\<rparr> alice 9
   = Inr ((example_card 30 20 5)\<lparr>c_updated_at := 7\<rparr>,
          example_db\<lparr>tbl_cards := [(example_card 30 20 5)\<lparr>c_updated_at := 7\<rparr>,
                                   example_card 31 20 1, example_card 32 23 0]\<rparr>)"
proof -
  have d: "distinct (map c_id (tbl_cards example_db))"
    by (simp add: example_db_def example_card_def)
  have r: "reorder_card example_db 30 \<lparr>reorder_position = 5\<rparr> alice 7 =
     Inr ((example_card 30 20 5)\<lparr>c_updated_at := 7\<rparr>,
          example_db\<lparr>tbl_cards := [(example_card 30 20 5)\<lparr>c_updated_at := 7\<rparr>,
                                   example_card 31 20 1, example_card 32 23 0]\<rparr>)"
    by (simp add: reorder_card_def card_get_def list_get_def board_get_def example_db_def
        example_card_def example_list_def example_board_def alice_def card_reorder_def
        card_commit_def flush_row_def card_refresh_def)
  from reorder_card_idempotent [OF d, of 30 "\<lparr>reorder_position = 5\<rparr>" alice 7 9] d r
  show ?thesis by simp
qed

section \<open>Moving a card\<close>

lemma board_get_id: "board_get db i = Some b \<Longrightarrow> b_id b = i"
  using find_key_Some [of b_id i "tbl_boards db" b] by (simp add: board_get_def)

lemma move_card_Inr:
  assumes "move_card db i md cu now = Inr x"
  shows "\<exists>c l b t. card_get db i = Some c \<and> list_get db (c_list_id c) = Some l \<and>
            board_get db (l_board_id l) = Some b \<and> b_owner_id b = u_id cu \<and>
            list_get db (move_list_id md) = Some t \<and> l_board_id t = b_id b \<and>
            move_to_list db c (move_list_id md) (move_position md) now = Inr x"
  using assms by (auto simp: move_card_def split: option.splits if_splits)

lemma move_to_list_stored:
  assumes "card_get db i = Some c" "move_to_list db c l p now = Inr (c', db')"
  shows "c_list_id c' = l \<and> c_position c' = p \<and> card_get db' i = Some c' \<and>
         db' = card_commit db (c\<lparr>c_list_id := l, c_position := p\<rparr>) now"
proof -
  have i: "c_id c = i" using assms(1) by (rule card_get_id)
  from assms(2) have c': "c' = (if c_list_id c = l \<and> c_position c = p then c
                else c\<lparr>c_list_id := l, c_position := p, c_updated_at := now\<rparr>)"
    and db': "db' = card_commit db (c\<lparr>c_list_id := l, c_position := p\<rparr>) now"
    by (simp_all add: move_to_list_loaded [OF assms(1)])
  have eq: "(c\<lparr>c_list_id := l, c_position := p\<rparr> = c) = (c_list_id c = l \<and> c_position c = p)"
    by (cases c) auto
  have "card_get db' i = Some c'"
    using assms(1) i eq by (auto simp: db' c' card_get_commit)
  then show ?thesis using db' by (simp add: c')
qed

text \<open>
  C1. When \<^verbatim>\<open>move(cardId, targetListId, position)\<close> succeeds, the returned card
  is the stored card, its list is the target list and its position is the given position.
  Both fields are written by the one commit of \<^verbatim>\<open>move_to_list\<close>: every database
  another session can read while the move runs is the database before the call or the
  database after it, where the card has both new values; the last one is the one after.
\<close>

theorem move_card_sets_list_and_position:
  assumes "move_card db card_id move_data current_user now = Inr (c', db')"
  shows "c_list_id c' = move_list_id move_data \<and>
         c_position c' = move_position move_data \<and>
         card_get db' card_id = Some c' \<and>
         (\<exists>c. card_get db card_id = Some c \<and>
              last (move_to_list_observed db c (move_list_id move_data)
                      (move_position move_data) now) = db' \<and>
              (\<forall>d \<in> set (move_to_list_observed db c (move_list_id move_data)
                             (move_position move_data) now).
                  d = db \<or> d = db'))"
proof -
  from move_card_Inr [OF assms] obtain c where
    c: "card_get db card_id = Some c" and
    m: "move_to_list db c (move_list_id move_data) (move_position move_data) now = Inr (c', db')"
    by blast
  note s = move_to_list_stored [OF c m]
  have "last (move_to_list_observed db c (move_list_id move_data)
                      (move_position move_data) now) = db'"
    using s by (simp add: move_to_list_observed_def Let_def)
  moreover have "\<forall>d \<in> set (move_to_list_observed db c (move_list_id move_data)
                             (move_position move_data) now).
                  d = db \<or> d = db'"
    using s by (simp add: move_to_list_observed_def Let_def)
  ultimately show ?thesis using s c by blast
qed

text \<open>Alice moves card 30 from list 20 to list 21 of the same board, to position 4.\<close>

theorem move_card_sets_list_and_position_witness:
  "move_card example_db 30 \<lparr>move_list_id = 21, move_position = 4\<rparr> alice 7 =
     Inr ((example_card 30 21 4)\<lparr>c_updated_at := 7\<rparr>,
          example_db\<lparr>tbl_cards := [(example_card 30 21 4)\<lparr>c_updated_at := 7\<rparr>,
                                   example_card 31 20 1, example_card 32 23 0]\<rparr>) \<and>
   c_list_id ((example_card 30 21 4)\<lparr>c_updated_at := 7\<rparr>) = 21 \<and>
   c_position ((example_card 30 21 4)\<lparr>c_updated_at := 7\<rparr>) = 4 \<and>
   card_get (example_db\<lparr>tbl_cards := [(example_card 30 21 4)\<lparr>c_updated_at := 7\<rparr>,
                                   example_card 31 20 1, example_card 32 23 0]\<rparr>) 30 =
     Some ((example_card 30 21 4)\<lparr>c_updated_at := 7\<rparr>)"
proof -
  have r: "move_card example_db 30 \<lparr>move_list_id = 21, move_position = 4\<rparr> alice 7 =
     Inr ((example_card 30 21 4)\<lparr>c_updated_at := 7\<rparr>,
          example_db\<lparr>tbl_cards := [(example_card 30 21 4)\<lparr>c_updated_at := 7\<rparr>,
                                   example_card 31 20 1, example_card 32 23 0]\<rparr>)"
    by (simp add: move_card_def card_get_def list_get_def board_get_def example_db_def
        example_card_def example_list_def example_board_def alice_def move_to_list_def
        card_commit_def flush_row_def card_refresh_def)
  from move_card_sets_list_and_position [OF r] r show ?thesis by simp
qed

text \<open>
  C9. For a card whose board the caller owns, \<^verbatim>\<open>Move\<close> to the card's current list
  at position \<open>p\<close> succeeds (the target list is the current list, so its board is the
  current board) and returns exactly what \<^verbatim>\<open>Reorder\<close> to \<open>p\<close> returns at that
  time: the same card and the same database.
\<close>

theorem move_card_same_list_is_reorder:
  assumes "card_get db card_id = Some c"
    and "list_get db (c_list_id c) = Some l"
    and "board_get db (l_board_id l) = Some b"
    and "b_owner_id b = u_id current_user"
  shows "\<exists>r. move_card db card_id \<lparr>move_list_id = c_list_id c, move_position = p\<rparr> current_user now = Inr r \<and>
             reorder_card db card_id \<lparr>reorder_position = p\<rparr> current_user now = Inr r"
proof -
  have same: "c\<lparr>c_list_id := c_list_id c, c_position := p\<rparr> = c\<lparr>c_position := p\<rparr>"
    by (cases c) simp
  have "move_to_list db c (c_list_id c) p now = card_reorder db c p now"
    by (simp add: move_to_list_def card_reorder_def same Let_def)
  moreover have "l_board_id l = b_id b" using assms(3) by (simp add: board_get_id)
  ultimately have "move_card db card_id \<lparr>move_list_id = c_list_id c, move_position = p\<rparr> current_user now
      = reorder_card db card_id \<lparr>reorder_position = p\<rparr> current_user now"
    using assms by (simp add: move_card_def reorder_card_def)
  moreover have "\<exists>r. reorder_card db card_id \<lparr>reorder_position = p\<rparr> current_user now = Inr r"
    using assms by (simp add: reorder_card_def card_reorder_loaded [OF assms(1)])
  ultimately show ?thesis by auto
qed

text \<open>Alice moves card 30 to its own list 20 at position 5, and reorders it to 5.\<close>

theorem move_card_same_list_is_reorder_witness:
  "move_card example_db 30 \<lparr>move_list_id = 20, move_position = 5\<rparr> alice 7 =
     Inr ((example_card 30 20 5)\<lparr>c_updated_at := 7\<rparr>,
          example_db\<lparr>tbl_cards := [(example_card 30 20 5)\<lparr>c_updated_at := 7\<rparr>,
                                   example_card 31 20 1, example_card 32 23 0]\<rparr>) \<and>
   reorder_card example_db 30 \<lparr>reorder_position = 5\<rparr> alice 7 =
     move_card example_db 30 \<lparr>move_list_id = 20, move_position = 5\<rparr> alice 7"
proof -
  have c: "card_get example_db 30 = Some (example_card 30 20 0)"
    by (simp add: card_get_def example_db_def example_card_def)
  have l: "list_get example_db (c_list_id (example_card 30 20 0)) = Some (example_list 20 10 0)"
    by (simp add: list_get_def example_db_def example_card_def example_list_def)
  have b: "board_get example_db (l_board_id (example_list 20 10 0)) = Some (example_board 10 1)"
    by (simp add: board_get_def example_db_def example_list_def example_board_def)
  have own: "b_owner_id (example_board 10 1) = u_id alice"
    by (simp add: example_board_def alice_def)
  have m: "move_card example_db 30 \<lparr>move_list_id = 20, move_position = 5\<rparr> alice 7 =
     Inr ((example_card 30 20 5)\<lparr>c_updated_at := 7\<rparr>,
          example_db\<lparr>tbl_cards := [(example_card 30 20 5)\<lparr>c_updated_at := 7\<rparr>,
                                   example_card 31 20 1, example_card 32 23 0]\<rparr>)"
    by (simp add: move_card_def card_get_def list_get_def board_get_def example_db_def
        example_card_def example_list_def example_board_def alice_def move_to_list_def
        card_commit_def flush_row_def card_refresh_def)
  have id: "c_list_id (example_card 30 20 0) = 20" by (simp add: example_card_def)
  from move_card_same_list_is_reorder [OF c l b own, of 5 7] m show ?thesis
    by (auto simp: id)
qed

lemma foreign_keys_chain:
  assumes "foreign_keys db" "card_get db i = Some c"
  shows "\<exists>l b. list_get db (c_list_id c) = Some l \<and> board_get db (l_board_id l) = Some b"
proof -
  have "c \<in> set (tbl_cards db)"
    using find_key_Some [OF assms(2) [unfolded card_get_def]] by simp
  with assms(1) obtain l where l: "list_get db (c_list_id c) = Some l"
    by (auto simp: foreign_keys_def list_all_iff)
  have "l \<in> set (tbl_lists db)"
    using find_key_Some [OF l [unfolded list_get_def]] by simp
  with assms(1) obtain b where "board_get db (l_board_id l) = Some b"
    by (auto simp: foreign_keys_def list_all_iff)
  with l show ?thesis by blast
qed

lemma move_card_no_card:
  "card_get db i = None \<Longrightarrow>
   move_card db i md cu now = Inl (HTTPException HTTP_404_NOT_FOUND ''Card not found'')"
  by (simp add: move_card_def)

lemma move_card_not_owner:
  "card_get db i = Some c \<Longrightarrow> list_get db (c_list_id c) = Some l \<Longrightarrow>
   board_get db (l_board_id l) = Some b \<Longrightarrow> b_owner_id b \<noteq> u_id cu \<Longrightarrow>
   move_card db i md cu now =
     Inl (HTTPException HTTP_403_FORBIDDEN ''Not authorized to move this card'')"
  by (simp add: move_card_def)

lemma move_card_no_target:
  "card_get db i = Some c \<Longrightarrow> list_get db (c_list_id c) = Some l \<Longrightarrow>
   board_get db (l_board_id l) = Some b \<Longrightarrow> b_owner_id b = u_id cu \<Longrightarrow>
   list_get db (move_list_id md) = None \<Longrightarrow>
   move_card db i md cu now =
     Inl (HTTPException HTTP_404_NOT_FOUND ''Target list not found'')"
  by (simp add: move_card_def)

lemma move_card_other_board:
  "card_get db i = Some c \<Longrightarrow> list_get db (c_list_id c) = Some l \<Longrightarrow>
   board_get db (l_board_id l) = Some b \<Longrightarrow> b_owner_id b = u_id cu \<Longrightarrow>
   list_get db (move_list_id md) = Some t \<Longrightarrow> l_board_id t \<noteq> l_board_id l \<Longrightarrow>
   move_card db i md cu now =
     Inl (HTTPException HTTP_400_BAD_REQUEST ''Cannot move card to a list in a different board'')"
  by (simp add: move_card_def board_get_id)

lemma move_card_moves:
  "card_get db i = Some c \<Longrightarrow> list_get db (c_list_id c) = Some l \<Longrightarrow>
   board_get db (l_board_id l) = Some b \<Longrightarrow> b_owner_id b = u_id cu \<Longrightarrow>
   list_get db (move_list_id md) = Some t \<Longrightarrow> l_board_id t = l_board_id l \<Longrightarrow>
   move_card db i md cu now = move_to_list db c (move_list_id md) (move_position md) now"
  by (simp add: move_card_def board_get_id)

text \<open>
  C2. \<^verbatim>\<open>move_card\<close> checks its preconditions in this order. (1) No card with the
  id: 404 ``Card not found''. Otherwise the card's list and that list's board exist (the
  foreign keys of the schema), and: (2) the caller does not own that board: 403, whatever
  the target is; (3) the caller owns it and the target list does not exist: 404 ``Target
  list not found''; (4) the target list exists on another board: 400; (5) otherwise the
  card is moved by \<^verbatim>\<open>move_to_list\<close>, which succeeds. A move that succeeds has
  passed all four checks.
\<close>

theorem move_card_check_order:
  "(card_get db card_id = None \<longrightarrow>
      move_card db card_id move_data current_user now =
        Inl (HTTPException HTTP_404_NOT_FOUND ''Card not found'')) \<and>
   (\<forall>c. card_get db card_id = Some c \<and> foreign_keys db \<longrightarrow>
      (\<exists>l b. list_get db (c_list_id c) = Some l \<and> board_get db (l_board_id l) = Some b)) \<and>
   (\<forall>c l b. card_get db card_id = Some c \<and> list_get db (c_list_id c) = Some l \<and>
        board_get db (l_board_id l) = Some b \<longrightarrow>
      (b_owner_id b \<noteq> u_id current_user \<longrightarrow>
         move_card db card_id move_data current_user now =
           Inl (HTTPException HTTP_403_FORBIDDEN ''Not authorized to move this card'')) \<and>
      (b_owner_id b = u_id current_user \<and> list_get db (move_list_id move_data) = None \<longrightarrow>
         move_card db card_id move_data current_user now =
           Inl (HTTPException HTTP_404_NOT_FOUND ''Target list not found'')) \<and>
      (\<forall>t. b_owner_id b = u_id current_user \<and>
           list_get db (move_list_id move_data) = Some t \<and> l_board_id t \<noteq> b_id b \<longrightarrow>
         move_card db card_id move_data current_user now =
           Inl (HTTPException HTTP_400_BAD_REQUEST
                  ''Cannot move card to a list in a different board'')) \<and>
      (\<forall>t. b_owner_id b = u_id current_user \<and>
           list_get db (move_list_id move_data) = Some t \<and> l_board_id t = b_id b \<longrightarrow>
         move_card db card_id move_data current_user now =
           move_to_list db c (move_list_id move_data) (move_position move_data) now \<and>
         (\<exists>r. move_card db card_id move_data current_user now = Inr r))) \<and>
   (\<forall>r. move_card db card_id move_data current_user now = Inr r \<longrightarrow>
      (\<exists>c l b t. card_get db card_id = Some c \<and> list_get db (c_list_id c) = Some l \<and>
         board_get db (l_board_id l) = Some b \<and> b_owner_id b = u_id current_user \<and>
         list_get db (move_list_id move_data) = Some t \<and> l_board_id t = b_id b))"
proof -
  have 1: "card_get db card_id = None \<longrightarrow>
      move_card db card_id move_data current_user now =
        Inl (HTTPException HTTP_404_NOT_FOUND ''Card not found'')"
    by (simp add: move_card_no_card)
  have 2: "\<forall>c. card_get db card_id = Some c \<and> foreign_keys db \<longrightarrow>
      (\<exists>l b. list_get db (c_list_id c) = Some l \<and> board_get db (l_board_id l) = Some b)"
    using foreign_keys_chain by blast
  have 3: "(b_owner_id b \<noteq> u_id current_user \<longrightarrow>
         move_card db card_id move_data current_user now =
           Inl (HTTPException HTTP_403_FORBIDDEN ''Not authorized to move this card'')) \<and>
      (b_owner_id b = u_id current_user \<and> list_get db (move_list_id move_data) = None \<longrightarrow>
         move_card db card_id move_data current_user now =
           Inl (HTTPException HTTP_404_NOT_FOUND ''Target list not found'')) \<and>
      (\<forall>t. b_owner_id b = u_id current_user \<and>
           list_get db (move_list_id move_data) = Some t \<and> l_board_id t \<noteq> b_id b \<longrightarrow>
         move_card db card_id move_data current_user now =
           Inl (HTTPException HTTP_400_BAD_REQUEST
                  ''Cannot move card to a list in a different board'')) \<and>
      (\<forall>t. b_owner_id b = u_id current_user \<and>
           list_get db (move_list_id move_data) = Some t \<and> l_board_id t = b_id b \<longrightarrow>
         move_card db card_id move_data current_user now =
           move_to_list db c (move_list_id move_data) (move_position move_data) now \<and>
         (\<exists>r. move_card db card_id move_data current_user now = Inr r))"
    if h: "card_get db card_id = Some c \<and> list_get db (c_list_id c) = Some l \<and>
        board_get db (l_board_id l) = Some b" for c l b
  proof -
    from h have c: "card_get db card_id = Some c" and l: "list_get db (c_list_id c) = Some l"
      and b: "board_get db (l_board_id l) = Some b" by simp_all
    have bid: "b_id b = l_board_id l" using b by (rule board_get_id)
    note s = move_to_list_loaded [OF c, of "move_list_id move_data" "move_position move_data" now]
    show ?thesis
      using c l b bid s
      by (simp add: move_card_not_owner move_card_no_target move_card_other_board
          move_card_moves)
  qed
  have 4: "\<forall>r. move_card db card_id move_data current_user now = Inr r \<longrightarrow>
      (\<exists>c l b t. card_get db card_id = Some c \<and> list_get db (c_list_id c) = Some l \<and>
         board_get db (l_board_id l) = Some b \<and> b_owner_id b = u_id current_user \<and>
         list_get db (move_list_id move_data) = Some t \<and> l_board_id t = b_id b)"
    using move_card_Inr by blast
  from 1 2 3 4 show ?thesis by blast
qed

text \<open>
  On the small database: an unknown card; Bob on Alice's card with a target that does not
  exist (forbidden, not ``not found''); Alice with a target that does not exist; Alice
  with a target on her other board; Alice with a target on the same board.
\<close>

theorem move_card_check_order_witness:
  "foreign_keys example_db \<and>
   move_card example_db 99 \<lparr>move_list_id = 98, move_position = 0\<rparr> bob 7 =
     Inl (HTTPException HTTP_404_NOT_FOUND ''Card not found'') \<and>
   move_card example_db 30 \<lparr>move_list_id = 98, move_position = 0\<rparr> bob 7 =
     Inl (HTTPException HTTP_403_FORBIDDEN ''Not authorized to move this card'') \<and>
   move_card example_db 30 \<lparr>move_list_id = 98, move_position = 0\<rparr> alice 7 =
     Inl (HTTPException HTTP_404_NOT_FOUND ''Target list not found'') \<and>
   move_card example_db 30 \<lparr>move_list_id = 22, move_position = 0\<rparr> alice 7 =
     Inl (HTTPException HTTP_400_BAD_REQUEST ''Cannot move card to a list in a different board'') \<and>
   move_card example_db 30 \<lparr>move_list_id = 21, move_position = 4\<rparr> alice 7 =
     move_to_list example_db (example_card 30 20 0) 21 4 7"
proof -
  have fk: "foreign_keys example_db"
    by (simp add: foreign_keys_def list_get_def board_get_def example_db_def
        example_card_def example_list_def example_board_def)
  have none: "card_get example_db 99 = None"
    by (simp add: card_get_def example_db_def example_card_def)
  have c: "card_get example_db 30 = Some (example_card 30 20 0)"
    by (simp add: card_get_def example_db_def example_card_def)
  have l: "list_get example_db (c_list_id (example_card 30 20 0)) = Some (example_list 20 10 0)"
    by (simp add: list_get_def example_db_def example_card_def example_list_def)
  have b: "board_get example_db (l_board_id (example_list 20 10 0)) = Some (example_board 10 1)"
    by (simp add: board_get_def example_db_def example_list_def example_board_def)
  have own: "b_owner_id (example_board 10 1) = u_id alice" "b_owner_id (example_board 10 1) \<noteq> u_id bob"
    by (simp_all add: example_board_def alice_def bob_def)
  have t98: "list_get example_db 98 = None"
    and t22: "list_get example_db 22 = Some (example_list 22 11 0)"
    and t21: "list_get example_db 21 = Some (example_list 21 10 1)"
    by (simp_all add: list_get_def example_db_def example_list_def)
  have bs: "l_board_id (example_list 22 11 0) \<noteq> b_id (example_board 10 1)"
    "l_board_id (example_list 21 10 1) = b_id (example_board 10 1)"
    by (simp_all add: example_list_def example_board_def)
  have 1: "move_card example_db 99 \<lparr>move_list_id = 98, move_position = 0\<rparr> bob 7 =
     Inl (HTTPException HTTP_404_NOT_FOUND ''Card not found'')"
    using move_card_check_order [of example_db 99 "\<lparr>move_list_id = 98, move_position = 0\<rparr>"
        bob 7, THEN conjunct1] none by simp
  note order = move_card_check_order [THEN conjunct2, THEN conjunct2, THEN conjunct1,
      rule_format, OF conjI [OF c conjI [OF l b]]]
  have 2: "move_card example_db 30 \<lparr>move_list_id = 98, move_position = 0\<rparr> bob 7 =
     Inl (HTTPException HTTP_403_FORBIDDEN ''Not authorized to move this card'')"
    using order [where move_data = "\<lparr>move_list_id = 98, move_position = 0\<rparr>" and current_user = bob and now = 7, THEN conjunct1] own
    by simp
  have 3: "move_card example_db 30 \<lparr>move_list_id = 98, move_position = 0\<rparr> alice 7 =
     Inl (HTTPException HTTP_404_NOT_FOUND ''Target list not found'')"
    using order [where move_data = "\<lparr>move_list_id = 98, move_position = 0\<rparr>" and current_user = alice and now = 7,
        THEN conjunct2, THEN conjunct1] own t98
    by simp
  have 4: "move_card example_db 30 \<lparr>move_list_id = 22, move_position = 0\<rparr> alice 7 =
     Inl (HTTPException HTTP_400_BAD_REQUEST ''Cannot move card to a list in a different board'')"
    using order [where move_data = "\<lparr>move_list_id = 22, move_position = 0\<rparr>" and current_user = alice and now = 7,
        THEN conjunct2, THEN conjunct2, THEN conjunct1, rule_format,
        of "example_list 22 11 0"] own t22 bs
    by simp
  have 5: "move_card example_db 30 \<lparr>move_list_id = 21, move_position = 4\<rparr> alice 7 =
     move_to_list example_db (example_card 30 20 0) 21 4 7"
    using order [where move_data = "\<lparr>move_list_id = 21, move_position = 4\<rparr>" and current_user = alice and now = 7,
        THEN conjunct2, THEN conjunct2, THEN conjunct2, rule_format,
        of "example_list 21 10 1"] own t21 bs
    by simp
  from move_card_check_order [where db = example_db and card_id = 30,
      THEN conjunct2, THEN conjunct1, rule_format, OF conjI [OF c fk]]
  have "\<exists>l b. list_get example_db (c_list_id (example_card 30 20 0)) = Some l \<and>
           board_get example_db (l_board_id l) = Some b" .
  with fk 1 2 3 4 5 show ?thesis by blast
qed

text \<open>
  C3, as stated, fails for a caller who does not own the card's current board: Bob moves
  Alice's card 30 to his own list 23, which exists and is on another board, and the
  response is 403, not the 400 of a cross-board move.
\<close>

theorem move_card_cross_board_counterexample:
  "card_get example_db 30 = Some (example_card 30 20 0) \<and>
   list_get example_db 20 = Some (example_list 20 10 0) \<and>
   list_get example_db 23 = Some (example_list 23 12 0) \<and>
   l_board_id (example_list 23 12 0) \<noteq> l_board_id (example_list 20 10 0) \<and>
   move_card example_db 30 \<lparr>move_list_id = 23, move_position = 0\<rparr> bob 7 =
     Inl (HTTPException HTTP_403_FORBIDDEN ''Not authorized to move this card'') \<and>
   move_card example_db 30 \<lparr>move_list_id = 23, move_position = 0\<rparr> bob 7 \<noteq>
     Inl (HTTPException HTTP_400_BAD_REQUEST ''Cannot move card to a list in a different board'')"
  by (simp add: move_card_def card_get_def list_get_def board_get_def example_db_def
        example_card_def example_list_def example_board_def bob_def)

text \<open>
  C3, amended. A move to an existing list on another board than the board of the card's
  current list never succeeds, whoever calls; and when the caller owns the card's current
  board it fails with 400 ``Cannot move card to a list in a different board'', whoever owns
  the target's board: the check compares the boards' ids, not their owners.
\<close>

theorem move_card_cross_board:
  assumes "card_get db card_id = Some c"
    and "list_get db (c_list_id c) = Some l"
    and "list_get db (move_list_id move_data) = Some t"
    and "l_board_id t \<noteq> l_board_id l"
  shows "(\<forall>r. move_card db card_id move_data current_user now \<noteq> Inr r) \<and>
         (\<forall>b. board_get db (l_board_id l) = Some b \<and> b_owner_id b = u_id current_user \<longrightarrow>
            move_card db card_id move_data current_user now =
              Inl (HTTPException HTTP_400_BAD_REQUEST
                     ''Cannot move card to a list in a different board''))"
proof (intro conjI allI impI)
  fix r
  show "move_card db card_id move_data current_user now \<noteq> Inr r"
  proof
    assume "move_card db card_id move_data current_user now = Inr r"
    from move_card_Inr [OF this] assms show False
      by (auto simp: board_get_id)
  qed
next
  fix b
  assume "board_get db (l_board_id l) = Some b \<and> b_owner_id b = u_id current_user"
  with assms show "move_card db card_id move_data current_user now =
              Inl (HTTPException HTTP_400_BAD_REQUEST
                     ''Cannot move card to a list in a different board'')"
    by (simp add: move_card_other_board)
qed

text \<open>Alice owns both board 10 and board 11, and her cross-board move still fails.\<close>

theorem move_card_cross_board_witness:
  "board_get example_db 10 = Some (example_board 10 1) \<and>
   board_get example_db 11 = Some (example_board 11 1) \<and>
   b_owner_id (example_board 10 1) = u_id alice \<and>
   b_owner_id (example_board 11 1) = u_id alice \<and>
   move_card example_db 30 \<lparr>move_list_id = 22, move_position = 0\<rparr> alice 7 =
     Inl (HTTPException HTTP_400_BAD_REQUEST ''Cannot move card to a list in a different board'')"
proof -
  have c: "card_get example_db 30 = Some (example_card 30 20 0)"
    by (simp add: card_get_def example_db_def example_card_def)
  have l: "list_get example_db (c_list_id (example_card 30 20 0)) = Some (example_list 20 10 0)"
    by (simp add: list_get_def example_db_def example_card_def example_list_def)
  have t: "list_get example_db (move_list_id \<lparr>move_list_id = 22, move_position = 0\<rparr>)
             = Some (example_list 22 11 0)"
    by (simp add: list_get_def example_db_def example_list_def)
  have d: "l_board_id (example_list 22 11 0) \<noteq> l_board_id (example_list 20 10 0)"
    by (simp add: example_list_def)
  have b: "board_get example_db (l_board_id (example_list 20 10 0)) = Some (example_board 10 1)"
    "board_get example_db 10 = Some (example_board 10 1)"
    "board_get example_db 11 = Some (example_board 11 1)"
    by (simp_all add: board_get_def example_db_def example_list_def example_board_def)
  have own: "b_owner_id (example_board 10 1) = u_id alice" "b_owner_id (example_board 11 1) = u_id alice"
    by (simp_all add: example_board_def alice_def)
  from move_card_cross_board [OF c l t d, of alice 7] b own show ?thesis by blast
qed

section \<open>Not found before forbidden\<close>

lemma card_ops_not_found:
  assumes "card_get db i = None"
  shows "update_card db i card_in cu now = Inl (HTTPException HTTP_404_NOT_FOUND ''Card not found'')"
    and "delete_card db i cu = Inl (HTTPException HTTP_404_NOT_FOUND ''Card not found'')"
    and "reorder_card db i rd cu now = Inl (HTTPException HTTP_404_NOT_FOUND ''Card not found'')"
  using assms by (simp_all add: update_card_def delete_card_def reorder_card_def)

lemma card_ops_forbidden:
  assumes "card_get db i = Some c" "list_get db (c_list_id c) = Some l"
    "board_get db (l_board_id l) = Some b" "b_owner_id b \<noteq> u_id cu"
  shows "update_card db i card_in cu now =
           Inl (HTTPException HTTP_403_FORBIDDEN ''Not authorized to update this card'')"
    and "delete_card db i cu =
           Inl (HTTPException HTTP_403_FORBIDDEN ''Not authorized to delete this card'')"
    and "reorder_card db i rd cu now =
           Inl (HTTPException HTTP_403_FORBIDDEN ''Not authorized to reorder this card'')"
  using assms by (simp_all add: update_card_def delete_card_def reorder_card_def)

lemma list_ops_not_found:
  assumes "list_get db i = None"
  shows "update_list db i list_in cu now = Inl (HTTPException HTTP_404_NOT_FOUND ''List not found'')"
    and "delete_list db i cu = Inl (HTTPException HTTP_404_NOT_FOUND ''List not found'')"
    and "reorder_list db i lrd cu now = Inl (HTTPException HTTP_404_NOT_FOUND ''List not found'')"
  using assms by (simp_all add: update_list_def delete_list_def reorder_list_def)

lemma list_ops_forbidden:
  assumes "list_get db i = Some l" "board_get db (l_board_id l) = Some b"
    "b_owner_id b \<noteq> u_id cu"
  shows "update_list db i list_in cu now =
           Inl (HTTPException HTTP_403_FORBIDDEN ''Not authorized to update this list'')"
    and "delete_list db i cu =
           Inl (HTTPException HTTP_403_FORBIDDEN ''Not authorized to delete this list'')"
    and "reorder_list db i lrd cu now =
           Inl (HTTPException HTTP_403_FORBIDDEN ''Not authorized to reorder this list'')"
  using assms by (simp_all add: update_list_def delete_list_def reorder_list_def)

lemma board_ops_not_found:
  assumes "board_get db i = None"
  shows "update_board db i board_in cu now = Inl (HTTPException HTTP_404_NOT_FOUND ''Board not found'')"
    and "delete_board db i cu = Inl (HTTPException HTTP_404_NOT_FOUND ''Board not found'')"
  using assms by (simp_all add: update_board_def delete_board_def)

lemma board_ops_forbidden:
  assumes "board_get db i = Some b" "b_owner_id b \<noteq> u_id cu"
  shows "update_board db i board_in cu now =
           Inl (HTTPException HTTP_403_FORBIDDEN ''Not authorized to update this board'')"
    and "delete_board db i cu =
           Inl (HTTPException HTTP_403_FORBIDDEN ''Not authorized to delete this board'')"
  using assms by (simp_all add: update_board_def delete_board_def)

text \<open>
  C4. Update and Delete on a board, Update, Delete and Reorder on a list, Update, Delete,
  Reorder and Move on a card: when no entity has the id, the operation fails with 404
  whatever else the database holds and whoever calls (the entity is fetched first, before
  any parent and before the owner is compared); when the entity exists and the owner of
  the board its parents lead to is not the caller, it fails with 403.
\<close>

theorem not_found_before_forbidden:
  "(board_get db i = None \<longrightarrow>
      update_board db i board_in cu now = Inl (HTTPException HTTP_404_NOT_FOUND ''Board not found'') \<and>
      delete_board db i cu = Inl (HTTPException HTTP_404_NOT_FOUND ''Board not found'')) \<and>
   (\<forall>b. board_get db i = Some b \<and> b_owner_id b \<noteq> u_id cu \<longrightarrow>
      update_board db i board_in cu now =
        Inl (HTTPException HTTP_403_FORBIDDEN ''Not authorized to update this board'') \<and>
      delete_board db i cu =
        Inl (HTTPException HTTP_403_FORBIDDEN ''Not authorized to delete this board'')) \<and>
   (list_get db i = None \<longrightarrow>
      update_list db i list_in cu now = Inl (HTTPException HTTP_404_NOT_FOUND ''List not found'') \<and>
      delete_list db i cu = Inl (HTTPException HTTP_404_NOT_FOUND ''List not found'') \<and>
      reorder_list db i list_rd cu now =
        Inl (HTTPException HTTP_404_NOT_FOUND ''List not found'')) \<and>
   (\<forall>l b. list_get db i = Some l \<and> board_get db (l_board_id l) = Some b \<and>
        b_owner_id b \<noteq> u_id cu \<longrightarrow>
      update_list db i list_in cu now =
        Inl (HTTPException HTTP_403_FORBIDDEN ''Not authorized to update this list'') \<and>
      delete_list db i cu =
        Inl (HTTPException HTTP_403_FORBIDDEN ''Not authorized to delete this list'') \<and>
      reorder_list db i list_rd cu now =
        Inl (HTTPException HTTP_403_FORBIDDEN ''Not authorized to reorder this list'')) \<and>
   (card_get db i = None \<longrightarrow>
      update_card db i card_in cu now = Inl (HTTPException HTTP_404_NOT_FOUND ''Card not found'') \<and>
      delete_card db i cu = Inl (HTTPException HTTP_404_NOT_FOUND ''Card not found'') \<and>
      reorder_card db i card_rd cu now =
        Inl (HTTPException HTTP_404_NOT_FOUND ''Card not found'') \<and>
      move_card db i card_move cu now =
        Inl (HTTPException HTTP_404_NOT_FOUND ''Card not found'')) \<and>
   (\<forall>c l b. card_get db i = Some c \<and> list_get db (c_list_id c) = Some l \<and>
        board_get db (l_board_id l) = Some b \<and> b_owner_id b \<noteq> u_id cu \<longrightarrow>
      update_card db i card_in cu now =
        Inl (HTTPException HTTP_403_FORBIDDEN ''Not authorized to update this card'') \<and>
      delete_card db i cu =
        Inl (HTTPException HTTP_403_FORBIDDEN ''Not authorized to delete this card'') \<and>
      reorder_card db i card_rd cu now =
        Inl (HTTPException HTTP_403_FORBIDDEN ''Not authorized to reorder this card'') \<and>
      move_card db i card_move cu now =
        Inl (HTTPException HTTP_403_FORBIDDEN ''Not authorized to move this card''))"
proof (intro conjI allI impI)
qed (simp_all add: board_ops_not_found board_ops_forbidden list_ops_not_found
       list_ops_forbidden card_ops_not_found card_ops_forbidden move_card_no_card
       move_card_not_owner)

text \<open>
  Bob on Alice's board 10, list 20 and card 30, and on the id 99 that no table holds.
\<close>

theorem not_found_before_forbidden_witness:
  "update_board example_db 99 \<lparr>bu_title = Some ''T'', bu_description = None\<rparr> bob 7 =
     Inl (HTTPException HTTP_404_NOT_FOUND ''Board not found'') \<and>
   delete_board example_db 10 bob =
     Inl (HTTPException HTTP_403_FORBIDDEN ''Not authorized to delete this board'') \<and>
   delete_list example_db 99 bob = Inl (HTTPException HTTP_404_NOT_FOUND ''List not found'') \<and>
   reorder_list example_db 20 \<lparr>list_reorder_position = 3\<rparr> bob 7 =
     Inl (HTTPException HTTP_403_FORBIDDEN ''Not authorized to reorder this list'') \<and>
   reorder_card example_db 99 \<lparr>reorder_position = 3\<rparr> bob 7 =
     Inl (HTTPException HTTP_404_NOT_FOUND ''Card not found'') \<and>
   delete_card example_db 30 bob =
     Inl (HTTPException HTTP_403_FORBIDDEN ''Not authorized to delete this card'')"
proof -
  have nb: "board_get example_db 99 = None"
    and b: "board_get example_db 10 = Some (example_board 10 1)"
    by (simp_all add: board_get_def example_db_def example_board_def)
  have nl: "list_get example_db 99 = None"
    and l: "list_get example_db 20 = Some (example_list 20 10 0)"
    by (simp_all add: list_get_def example_db_def example_list_def)
  have nc: "card_get example_db 99 = None"
    and c: "card_get example_db 30 = Some (example_card 30 20 0)"
    by (simp_all add: card_get_def example_db_def example_card_def)
  have lb: "board_get example_db (l_board_id (example_list 20 10 0)) = Some (example_board 10 1)"
    using b by (simp add: example_list_def)
  have cl: "list_get example_db (c_list_id (example_card 30 20 0)) = Some (example_list 20 10 0)"
    using l by (simp add: example_card_def)
  have own: "b_owner_id (example_board 10 1) \<noteq> u_id bob"
    by (simp add: example_board_def bob_def)
  note missing = not_found_before_forbidden [where db = example_db and i = 99 and cu = bob]
  have 1: "update_board example_db 99 \<lparr>bu_title = Some ''T'', bu_description = None\<rparr> bob 7 =
     Inl (HTTPException HTTP_404_NOT_FOUND ''Board not found'')"
    using missing [THEN conjunct1] nb by simp
  have 2: "delete_board example_db 10 bob =
     Inl (HTTPException HTTP_403_FORBIDDEN ''Not authorized to delete this board'')"
    using not_found_before_forbidden [where db = example_db and i = 10 and cu = bob,
        THEN conjunct2, THEN conjunct1, rule_format, OF conjI [OF b own]]
    by simp
  have 3: "delete_list example_db 99 bob = Inl (HTTPException HTTP_404_NOT_FOUND ''List not found'')"
    using missing [THEN conjunct2, THEN conjunct2, THEN conjunct1] nl by simp
  have 4: "reorder_list example_db 20 \<lparr>list_reorder_position = 3\<rparr> bob 7 =
     Inl (HTTPException HTTP_403_FORBIDDEN ''Not authorized to reorder this list'')"
    using not_found_before_forbidden [where db = example_db and i = 20 and cu = bob,
        THEN conjunct2, THEN conjunct2, THEN conjunct2, THEN conjunct1, rule_format,
        OF conjI [OF l conjI [OF lb own]]]
    by simp
  have 5: "reorder_card example_db 99 \<lparr>reorder_position = 3\<rparr> bob 7 =
     Inl (HTTPException HTTP_404_NOT_FOUND ''Card not found'')"
    using missing [THEN conjunct2, THEN conjunct2, THEN conjunct2, THEN conjunct2,
        THEN conjunct1] nc by simp
  have 6: "delete_card example_db 30 bob =
     Inl (HTTPException HTTP_403_FORBIDDEN ''Not authorized to delete this card'')"
    using not_found_before_forbidden [where db = example_db and i = 30 and cu = bob,
        THEN conjunct2, THEN conjunct2, THEN conjunct2, THEN conjunct2, THEN conjunct2,
        rule_format, OF conjI [OF c conjI [OF cl conjI [OF lb own]]]]
    by simp
  from 1 2 3 4 5 6 show ?thesis by blast
qed

section \<open>Listing the boards of a user\<close>

lemma many_boards_owned:
  "filter (\<lambda>b. b_owner_id b = u_id alice) (tbl_boards many_boards_db) = map numbered_board [0..<101]"
  by (simp add: many_boards_db_def filter_map o_def numbered_board_def alice_def)

text \<open>
  C5, as stated, fails: with the default \<^verbatim>\<open>skip\<close> 0 and \<^verbatim>\<open>limit\<close> 100,
  \<^verbatim>\<open>list_boards\<close> returns the first 100 of Alice's 101 boards, and board 100,
  which is in the table and whose owner is Alice, is not among them.
\<close>

theorem list_boards_exact_counterexample:
  "list_boards many_boards_db default_skip default_limit alice = Inr (map numbered_board [0..<100]) \<and>
   numbered_board 100 \<in> set (tbl_boards many_boards_db) \<and>
   b_owner_id (numbered_board 100) = u_id alice \<and>
   numbered_board 100 \<notin> set (map numbered_board [0..<100])"
proof -
  have 1: "list_boards many_boards_db default_skip default_limit alice = Inr (map numbered_board [0..<100])"
    by (simp add: list_boards_def get_multi_by_owner_def default_skip_def default_limit_def
        many_boards_owned take_map)
  have 2: "numbered_board 100 \<in> set (tbl_boards many_boards_db)"
    by (simp add: many_boards_db_def)
  have 3: "b_owner_id (numbered_board 100) = u_id alice"
    by (simp add: numbered_board_def alice_def)
  have "\<And>n. numbered_board n = numbered_board 100 \<Longrightarrow> n = 100"
  proof -
    fix n assume "numbered_board n = numbered_board 100"
    then have "b_created_at (numbered_board n) = b_created_at (numbered_board 100)" by simp
    then show "n = 100" by (simp add: numbered_board_def)
  qed
  then have 4: "numbered_board 100 \<notin> set (map numbered_board [0..<100])"
    by auto
  from 1 2 3 4 show ?thesis by blast
qed

text \<open>
  C5, amended. When \<^verbatim>\<open>list_boards\<close> returns (neither \<^verbatim>\<open>skip\<close> nor
  \<^verbatim>\<open>limit\<close> is negative), it returns the caller's boards from the
  \<^verbatim>\<open>skip\<close>-th on, at most \<^verbatim>\<open>limit\<close> of them: only boards of the table
  whose owner is the caller, and all of them when \<^verbatim>\<open>skip\<close> is 0 and the caller
  owns at most \<^verbatim>\<open>limit\<close> boards.
\<close>

theorem list_boards_window:
  assumes "list_boards db skip limit current_user = Inr bs"
  shows "0 \<le> skip \<and> 0 \<le> limit \<and>
         bs = take (nat limit) (drop (nat skip)
                (filter (\<lambda>b. b_owner_id b = u_id current_user) (tbl_boards db))) \<and>
         set bs \<subseteq> {b \<in> set (tbl_boards db). b_owner_id b = u_id current_user} \<and>
         (skip = 0 \<and> int (length (filter (\<lambda>b. b_owner_id b = u_id current_user) (tbl_boards db))) \<le> limit
            \<longrightarrow> bs = filter (\<lambda>b. b_owner_id b = u_id current_user) (tbl_boards db))"
proof -
  let ?own = "filter (\<lambda>b. b_owner_id b = u_id current_user) (tbl_boards db)"
  from assms have s: "0 \<le> skip" and l: "0 \<le> limit"
    and bs: "bs = take (nat limit) (drop (nat skip) ?own)"
    by (auto simp: list_boards_def get_multi_by_owner_def split: if_splits)
  have "set bs \<subseteq> set ?own"
    unfolding bs by (meson set_take_subset set_drop_subset subset_trans)
  then have sub: "set bs \<subseteq> {b \<in> set (tbl_boards db). b_owner_id b = u_id current_user}"
    by auto
  have full: "bs = ?own" if "skip = 0 \<and> int (length ?own) \<le> limit"
  proof -
    from that have "length ?own \<le> nat limit" by linarith
    with that show ?thesis by (simp add: bs)
  qed
  from s l bs sub full show ?thesis by blast
qed

text \<open>Alice's two boards with the defaults, and the second of them with skip 1, limit 1.\<close>

theorem list_boards_window_witness:
  "list_boards example_db default_skip default_limit alice =
     Inr [example_board 10 1, example_board 11 1] \<and>
   list_boards example_db 1 1 alice = Inr [example_board 11 1]"
proof -
  have 1: "list_boards example_db default_skip default_limit alice =
     Inr [example_board 10 1, example_board 11 1]"
    by (simp add: list_boards_def get_multi_by_owner_def default_skip_def default_limit_def
        example_db_def example_board_def alice_def)
  have 2: "list_boards example_db 1 1 alice = Inr [example_board 11 1]"
    by (simp add: list_boards_def get_multi_by_owner_def
        example_db_def example_board_def alice_def)
  from list_boards_window [OF 1] list_boards_window [OF 2] 1 2 show ?thesis by blast
qed

section \<open>Updating the profile\<close>

lemma user_get_mem: "user_get db i = Some u \<Longrightarrow> u \<in> set (tbl_users db) \<and> u_id u = i"
  using find_key_Some [of u_id i "tbl_users db" u] by (simp add: user_get_def)

lemma user_commit_free_values:
  assumes cu: "user_get db (u_id cu) = Some cu"
    and uniq: "unique_users db"
    and same: "u_id obj = u_id cu"
    and em: "u_email obj = u_email cu \<or> get_by_email db (u_email obj) = None"
    and un: "u_username obj = u_username cu \<or> get_by_username db (u_username obj) = None"
  shows "\<exists>db'. user_commit db obj now = Inr db' \<and> user_get db' (u_id cu) \<noteq> None"
proof (cases "user_get db (u_id obj) = Some obj")
  case True
  then have "user_commit db obj now = Inr db" by (simp add: user_commit_def)
  moreover have "user_get db (u_id cu) \<noteq> None" by (simp add: cu)
  ultimately show ?thesis by blast
next
  case False
  have mem: "cu \<in> set (tbl_users db)" using user_get_mem [OF cu] by simp
  have no: "\<not> list_ex (\<lambda>r. u_id r \<noteq> u_id obj \<and>
                         (u_email r = u_email obj \<or> u_username r = u_username obj))
                      (tbl_users db)"
  proof
    assume "list_ex (\<lambda>r. u_id r \<noteq> u_id obj \<and>
                         (u_email r = u_email obj \<or> u_username r = u_username obj))
                      (tbl_users db)"
    then obtain r where r: "r \<in> set (tbl_users db)" "u_id r \<noteq> u_id cu"
      and e: "u_email r = u_email obj \<or> u_username r = u_username obj"
      using same by (auto simp: list_ex_iff)
    from e have "r = cu"
    proof
      assume a: "u_email r = u_email obj"
      with r have "get_by_email db (u_email obj) \<noteq> None"
        by (auto simp: get_by_email_def find_None_iff)
      with em a have "u_email r = u_email cu" by simp
      with uniq r mem show ?thesis
        using distinct_key_unique [of u_email "tbl_users db" r cu] by (simp add: unique_users_def)
    next
      assume a: "u_username r = u_username obj"
      with r have "get_by_username db (u_username obj) \<noteq> None"
        by (auto simp: get_by_username_def find_None_iff)
      with un a have "u_username r = u_username cu" by simp
      with uniq r mem show ?thesis
        using distinct_key_unique [of u_username "tbl_users db" r cu] by (simp add: unique_users_def)
    qed
    with r show False by simp
  qed
  let ?db' = "db\<lparr>tbl_users := flush_row u_id (\<lambda>obj. obj\<lparr>u_updated_at := now\<rparr>) obj (tbl_users db)\<rparr>"
  have c: "user_commit db obj now = Inr ?db'"
    using False no by (simp add: user_commit_def)
  have "user_get ?db' (u_id cu) \<noteq> None"
    using cu by (simp add: user_get_def find_flush_row)
  with c show ?thesis by blast
qed

lemma user_update_free_values:
  assumes cu: "user_get db (u_id cu) = Some cu"
    and uniq: "unique_users db"
    and e: "\<forall>email. uu_email ui = Some email \<longrightarrow>
              email = u_email cu \<or> get_by_email db email = None"
    and n: "\<forall>username. uu_username ui = Some username \<longrightarrow>
              username = u_username cu \<or> get_by_username db username = None"
  shows "\<exists>r. user_update db cu ui now = Inr r"
proof -
  define o4 where "o4 =
     assign (uu_is_active ui) (\<lambda>v obj. obj\<lparr>u_is_active := v\<rparr>)
       (assign (uu_full_name ui) (\<lambda>v obj. obj\<lparr>u_full_name := Some v\<rparr>)
         (assign (uu_username ui) (\<lambda>v obj. obj\<lparr>u_username := v\<rparr>)
           (assign (uu_email ui) (\<lambda>v obj. obj\<lparr>u_email := v\<rparr>) cu)))"
  have same: "u_id o4 = u_id cu"
    by (auto simp: o4_def assign_def split: option.splits)
  have em: "u_email o4 = u_email cu \<or> get_by_email db (u_email o4) = None"
    using e by (auto simp: o4_def assign_def split: option.splits)
  have un: "u_username o4 = u_username cu \<or> get_by_username db (u_username o4) = None"
    using n by (auto simp: o4_def assign_def split: option.splits)
  from user_commit_free_values [OF cu uniq same em un, of now] obtain db' where
    c: "user_commit db o4 now = Inr db'" and g: "user_get db' (u_id cu) \<noteq> None"
    by blast
  from g obtain r where "user_refresh db' o4 = Inr r"
    by (auto simp: user_refresh_def same)
  with c show ?thesis
    by (simp add: user_update_def Let_def o4_def [symmetric])
qed

text \<open>
  C10. \<^verbatim>\<open>UpdateProfile\<close> never reports a conflict against the caller's own
  values: a submitted email equal to the caller's email never gives ``Email already
  registered'', a submitted username equal to the caller's username never gives ``Username
  already taken''. For a caller who is a stored user (emails and usernames unique in the
  table), the update succeeds when each submitted email or username is the caller's own,
  although the table holds it, or is not empty and belongs to no user. And an
  \<^verbatim>\<open>HTTPException\<close> is raised only when a submitted email, or a submitted
  username, differs from the caller's and belongs to a user of the table.
\<close>

theorem update_user_me_own_values:
  "(uu_email user_in = Some (u_email current_user) \<longrightarrow>
      update_user_me db user_in current_user now \<noteq>
        Inl (HTTPException HTTP_400_BAD_REQUEST ''Email already registered'')) \<and>
   (uu_username user_in = Some (u_username current_user) \<longrightarrow>
      update_user_me db user_in current_user now \<noteq>
        Inl (HTTPException HTTP_400_BAD_REQUEST ''Username already taken'')) \<and>
   (user_get db (u_id current_user) = Some current_user \<and> unique_users db \<and>
    (\<forall>email. uu_email user_in = Some email \<longrightarrow>
        email = u_email current_user \<or> email \<noteq> [] \<and> get_by_email db email = None) \<and>
    (\<forall>username. uu_username user_in = Some username \<longrightarrow>
        username = u_username current_user \<or>
        username \<noteq> [] \<and> get_by_username db username = None) \<longrightarrow>
      (\<exists>r. update_user_me db user_in current_user now = Inr r)) \<and>
   (\<forall>code detail. update_user_me db user_in current_user now = Inl (HTTPException code detail) \<longrightarrow>
      (\<exists>email. uu_email user_in = Some email \<and> email \<noteq> u_email current_user \<and>
          get_by_email db email \<noteq> None) \<or>
      (\<exists>username. uu_username user_in = Some username \<and> username \<noteq> u_username current_user \<and>
          get_by_username db username \<noteq> None))"
proof -
  have fail: "user_update db current_user user_in now \<noteq> Inl (HTTPException code detail)"
    for code detail
    by (auto simp: user_update_def user_commit_def user_refresh_def Let_def
        split: sum.splits option.splits if_splits)
  have 1: "uu_email user_in = Some (u_email current_user) \<longrightarrow>
      update_user_me db user_in current_user now \<noteq>
        Inl (HTTPException HTTP_400_BAD_REQUEST ''Email already registered'')"
    using fail by (auto simp: update_user_me_def split: option.splits)
  have 2: "uu_username user_in = Some (u_username current_user) \<longrightarrow>
      update_user_me db user_in current_user now \<noteq>
        Inl (HTTPException HTTP_400_BAD_REQUEST ''Username already taken'')"
    using fail by (auto simp: update_user_me_def split: option.splits)
  have 3: "user_get db (u_id current_user) = Some current_user \<and> unique_users db \<and>
    (\<forall>email. uu_email user_in = Some email \<longrightarrow>
        email = u_email current_user \<or> email \<noteq> [] \<and> get_by_email db email = None) \<and>
    (\<forall>username. uu_username user_in = Some username \<longrightarrow>
        username = u_username current_user \<or>
        username \<noteq> [] \<and> get_by_username db username = None) \<longrightarrow>
      (\<exists>r. update_user_me db user_in current_user now = Inr r)"
  proof
    assume h: "user_get db (u_id current_user) = Some current_user \<and> unique_users db \<and>
    (\<forall>email. uu_email user_in = Some email \<longrightarrow>
        email = u_email current_user \<or> email \<noteq> [] \<and> get_by_email db email = None) \<and>
    (\<forall>username. uu_username user_in = Some username \<longrightarrow>
        username = u_username current_user \<or>
        username \<noteq> [] \<and> get_by_username db username = None)"
    then have "update_user_me db user_in current_user now = user_update db current_user user_in now"
      by (auto simp: update_user_me_def split: option.splits)
    moreover from h have "\<exists>r. user_update db current_user user_in now = Inr r"
      by (intro user_update_free_values) auto
    ultimately show "\<exists>r. update_user_me db user_in current_user now = Inr r" by simp
  qed
  have 4: "\<forall>code detail. update_user_me db user_in current_user now = Inl (HTTPException code detail) \<longrightarrow>
      (\<exists>email. uu_email user_in = Some email \<and> email \<noteq> u_email current_user \<and>
          get_by_email db email \<noteq> None) \<or>
      (\<exists>username. uu_username user_in = Some username \<and> username \<noteq> u_username current_user \<and>
          get_by_username db username \<noteq> None)"
    using fail by (auto simp: update_user_me_def split: option.splits if_splits)
  from 1 2 3 4 show ?thesis by blast
qed

text \<open>
  Alice submits her own email and username with a new full name: the update succeeds,
  although her email is in the table. She submits Bob's email: conflict.
\<close>

theorem update_user_me_own_values_witness:
  "update_user_me example_db
     \<lparr>uu_email = Some ''alice@example.com'', uu_username = Some ''alice'',
      uu_full_name = Some ''Alice'', uu_is_active = None\<rparr> alice 7 =
     Inr (alice\<lparr>u_full_name := Some ''Alice'', u_updated_at := 7\<rparr>,
          example_db\<lparr>tbl_users := [alice\<lparr>u_full_name := Some ''Alice'', u_updated_at := 7\<rparr>, bob]\<rparr>) \<and>
   get_by_email example_db ''alice@example.com'' = Some alice \<and>
   update_user_me example_db
     \<lparr>uu_email = Some ''bob@example.com'', uu_username = None,
      uu_full_name = None, uu_is_active = None\<rparr> alice 7 =
     Inl (HTTPException HTTP_400_BAD_REQUEST ''Email already registered'') \<and>
   get_by_email example_db ''bob@example.com'' = Some bob"
proof -
  let ?own = "\<lparr>uu_email = Some ''alice@example.com'', uu_username = Some ''alice'',
      uu_full_name = Some ''Alice'', uu_is_active = None\<rparr>"
  let ?other = "\<lparr>uu_email = Some ''bob@example.com'', uu_username = None,
      uu_full_name = None, uu_is_active = None\<rparr>"
  have st: "user_get example_db (u_id alice) = Some alice"
    by (simp add: user_get_def example_db_def alice_def)
  have uq: "unique_users example_db"
    by (simp add: unique_users_def example_db_def alice_def bob_def)
  have e: "\<forall>email. uu_email ?own = Some email \<longrightarrow>
        email = u_email alice \<or> email \<noteq> [] \<and> get_by_email example_db email = None"
    by (simp add: alice_def)
  have n: "\<forall>username. uu_username ?own = Some username \<longrightarrow>
        username = u_username alice \<or>
        username \<noteq> [] \<and> get_by_username example_db username = None"
    by (simp add: alice_def)
  from update_user_me_own_values [of ?own alice example_db 7, THEN conjunct2, THEN conjunct2,
      THEN conjunct1, rule_format, OF conjI [OF st conjI [OF uq conjI [OF e n]]]]
  obtain r where r: "update_user_me example_db ?own alice 7 = Inr r" by blast
  have 1: "update_user_me example_db ?own alice 7 =
     Inr (alice\<lparr>u_full_name := Some ''Alice'', u_updated_at := 7\<rparr>,
          example_db\<lparr>tbl_users := [alice\<lparr>u_full_name := Some ''Alice'', u_updated_at := 7\<rparr>, bob]\<rparr>)"
    by (simp add: update_user_me_def user_update_def assign_def user_commit_def user_get_def
        user_refresh_def flush_row_def example_db_def alice_def bob_def)
  have 2: "get_by_email example_db ''alice@example.com'' = Some alice"
    "get_by_email example_db ''bob@example.com'' = Some bob"
    by (simp_all add: get_by_email_def example_db_def alice_def bob_def)
  have 3: "update_user_me example_db ?other alice 7 =
     Inl (HTTPException HTTP_400_BAD_REQUEST ''Email already registered'')"
    by (simp add: update_user_me_def get_by_email_def example_db_def alice_def bob_def)
  from update_user_me_own_values [of ?other alice example_db 7, THEN conjunct2, THEN conjunct2,
      THEN conjunct2, rule_format, OF 3] r 1 2 3
  show ?thesis by simp
qed

section \<open>Statuses of the error kinds\<close>

lemma user_update_no_http:
  "user_update db cu ui now \<noteq> Inl (HTTPException code detail)"
  by (auto simp: user_update_def user_commit_def user_refresh_def Let_def
      split: sum.splits option.splits if_splits)

text \<open>
  C8, as stated, fails: the error kinds do not map to distinct statuses. A profile update
  with an email that is taken (Conflict), a password change with a wrong current password
  (InvalidOperation) and a cross-board move (InvalidOperation) all answer with status 400.
\<close>

theorem error_kind_status_counterexample:
  "update_user_me example_db
     \<lparr>uu_email = Some ''bob@example.com'', uu_username = None,
      uu_full_name = None, uu_is_active = None\<rparr> alice 7 =
     Inl (HTTPException HTTP_400_BAD_REQUEST ''Email already registered'') \<and>
   update_password_me example_verify example_hash example_db
     \<lparr>current_password = ''wrong'', new_password = ''new''\<rparr> alice 7 =
     Inl (HTTPException HTTP_400_BAD_REQUEST ''Incorrect password'') \<and>
   move_card example_db 30 \<lparr>move_list_id = 22, move_position = 0\<rparr> alice 7 =
     Inl (HTTPException HTTP_400_BAD_REQUEST ''Cannot move card to a list in a different board'') \<and>
   response_status (update_user_me example_db
     \<lparr>uu_email = Some ''bob@example.com'', uu_username = None,
      uu_full_name = None, uu_is_active = None\<rparr> alice 7) =
   response_status (update_password_me example_verify example_hash example_db
     \<lparr>current_password = ''wrong'', new_password = ''new''\<rparr> alice 7) \<and>
   response_status (update_user_me example_db
     \<lparr>uu_email = Some ''bob@example.com'', uu_username = None,
      uu_full_name = None, uu_is_active = None\<rparr> alice 7) =
   response_status (move_card example_db 30 \<lparr>move_list_id = 22, move_position = 0\<rparr> alice 7)"
proof -
  have 1: "update_user_me example_db
     \<lparr>uu_email = Some ''bob@example.com'', uu_username = None,
      uu_full_name = None, uu_is_active = None\<rparr> alice 7 =
     Inl (HTTPException HTTP_400_BAD_REQUEST ''Email already registered'')"
    by (simp add: update_user_me_def get_by_email_def example_db_def alice_def bob_def)
  have 2: "update_password_me example_verify example_hash example_db
     \<lparr>current_password = ''wrong'', new_password = ''new''\<rparr> alice 7 =
     Inl (HTTPException HTTP_400_BAD_REQUEST ''Incorrect password'')"
    by (simp add: update_password_me_def example_verify_def example_hash_def alice_def)
  have 3: "move_card example_db 30 \<lparr>move_list_id = 22, move_position = 0\<rparr> alice 7 =
     Inl (HTTPException HTTP_400_BAD_REQUEST ''Cannot move card to a list in a different board'')"
    by (simp add: move_card_def card_get_def list_get_def board_get_def example_db_def
        example_card_def example_list_def example_board_def alice_def)
  show ?thesis by (simp add: 1 2 3)
qed

text \<open>
  C8, amended. NotFound is answered with status 404 and Forbidden with 403 (two different
  statuses, never one generic denial), Unauthorized (a token that is invalid or names no
  user) with 401, and both Conflict (email or username taken) and InvalidOperation
  (cross-board move, wrong current password) with 400: of the five kinds only Conflict and
  InvalidOperation share a status, and their responses differ in the detail text.
\<close>

theorem error_kind_statuses:
  "(card_get db card_id = None \<longrightarrow>
      response_status (move_card db card_id move_data current_user now) = Some HTTP_404_NOT_FOUND) \<and>
   (\<forall>c l b. card_get db card_id = Some c \<and> list_get db (c_list_id c) = Some l \<and>
        board_get db (l_board_id l) = Some b \<and> b_owner_id b \<noteq> u_id current_user \<longrightarrow>
      response_status (move_card db card_id move_data current_user now) = Some HTTP_403_FORBIDDEN) \<and>
   (\<forall>c l b t. card_get db card_id = Some c \<and> list_get db (c_list_id c) = Some l \<and>
        board_get db (l_board_id l) = Some b \<and> b_owner_id b = u_id current_user \<and>
        list_get db (move_list_id move_data) = Some t \<and> l_board_id t \<noteq> l_board_id l \<longrightarrow>
      move_card db card_id move_data current_user now =
        Inl (HTTPException HTTP_400_BAD_REQUEST
               ''Cannot move card to a list in a different board'')) \<and>
   (\<not> verify_password (current_password password_in) (u_hashed_password current_user) \<longrightarrow>
      update_password_me verify_password get_password_hash db password_in current_user now =
        Inl (HTTPException HTTP_400_BAD_REQUEST ''Incorrect password'')) \<and>
   (\<forall>code detail.
      update_user_me db user_in current_user now = Inl (HTTPException code detail) \<longrightarrow>
      code = HTTP_400_BAD_REQUEST \<and>
      (detail = ''Email already registered'' \<or> detail = ''Username already taken'')) \<and>
   (\<forall>e. get_current_user decode_access_token UUID db token = Inl e \<longrightarrow>
      e = HTTPException HTTP_401_UNAUTHORIZED ''Could not validate credentials'')"
proof -
  have 1: "card_get db card_id = None \<longrightarrow>
      response_status (move_card db card_id move_data current_user now) = Some HTTP_404_NOT_FOUND"
    by (simp add: move_card_no_card)
  have 2: "\<forall>c l b. card_get db card_id = Some c \<and> list_get db (c_list_id c) = Some l \<and>
        board_get db (l_board_id l) = Some b \<and> b_owner_id b \<noteq> u_id current_user \<longrightarrow>
      response_status (move_card db card_id move_data current_user now) = Some HTTP_403_FORBIDDEN"
    by (simp add: move_card_not_owner)
  have 3: "\<forall>c l b t. card_get db card_id = Some c \<and> list_get db (c_list_id c) = Some l \<and>
        board_get db (l_board_id l) = Some b \<and> b_owner_id b = u_id current_user \<and>
        list_get db (move_list_id move_data) = Some t \<and> l_board_id t \<noteq> l_board_id l \<longrightarrow>
      move_card db card_id move_data current_user now =
        Inl (HTTPException HTTP_400_BAD_REQUEST
               ''Cannot move card to a list in a different board'')"
    by (simp add: move_card_other_board)
  have 4: "\<not> verify_password (current_password password_in) (u_hashed_password current_user) \<longrightarrow>
      update_password_me verify_password get_password_hash db password_in current_user now =
        Inl (HTTPException HTTP_400_BAD_REQUEST ''Incorrect password'')"
    by (simp add: update_password_me_def)
  have 5: "\<forall>code detail.
      update_user_me db user_in current_user now = Inl (HTTPException code detail) \<longrightarrow>
      code = HTTP_400_BAD_REQUEST \<and>
      (detail = ''Email already registered'' \<or> detail = ''Username already taken'')"
    using user_update_no_http [of db current_user user_in now]
    by (auto simp: update_user_me_def split: if_splits)
  have 6: "\<forall>e. get_current_user decode_access_token UUID db token = Inl e \<longrightarrow>
      e = HTTPException HTTP_401_UNAUTHORIZED ''Could not validate credentials''"
    by (auto simp: get_current_user_def credentials_exception_def split: option.splits)
  from 1 2 3 4 5 6 show ?thesis by blast
qed

text \<open>One failing request of each kind on the small database.\<close>

theorem error_kind_statuses_witness:
  "response_status (move_card example_db 99 \<lparr>move_list_id = 21, move_position = 0\<rparr> bob 7) =
     Some HTTP_404_NOT_FOUND \<and>
   response_status (move_card example_db 30 \<lparr>move_list_id = 21, move_position = 0\<rparr> bob 7) =
     Some HTTP_403_FORBIDDEN \<and>
   response_status (move_card example_db 30 \<lparr>move_list_id = 22, move_position = 0\<rparr> alice 7) =
     Some HTTP_400_BAD_REQUEST \<and>
   response_status (update_password_me example_verify example_hash example_db
     \<lparr>current_password = ''wrong'', new_password = ''new''\<rparr> alice 7) =
     Some HTTP_400_BAD_REQUEST \<and>
   response_status (update_user_me example_db
     \<lparr>uu_email = Some ''bob@example.com'', uu_username = None,
      uu_full_name = None, uu_is_active = None\<rparr> alice 7) = Some HTTP_400_BAD_REQUEST \<and>
   response_status (get_current_user example_decode example_UUID example_db ''stale-token'') =
     Some HTTP_401_UNAUTHORIZED"
proof -
  let ?ui = "\<lparr>uu_email = Some ''bob@example.com'', uu_username = None,
      uu_full_name = None, uu_is_active = None\<rparr>"
  let ?pw = "\<lparr>current_password = ''wrong'', new_password = ''new''\<rparr>"
  have nc: "card_get example_db 99 = None"
    and c: "card_get example_db 30 = Some (example_card 30 20 0)"
    by (simp_all add: card_get_def example_db_def example_card_def)
  have l: "list_get example_db (c_list_id (example_card 30 20 0)) = Some (example_list 20 10 0)"
    by (simp add: list_get_def example_db_def example_card_def example_list_def)
  have b: "board_get example_db (l_board_id (example_list 20 10 0)) = Some (example_board 10 1)"
    by (simp add: board_get_def example_db_def example_list_def example_board_def)
  have own: "b_owner_id (example_board 10 1) = u_id alice"
    and other: "b_owner_id (example_board 10 1) \<noteq> u_id bob"
    by (simp_all add: example_board_def alice_def bob_def)
  have t: "list_get example_db (move_list_id \<lparr>move_list_id = 22, move_position = 0\<rparr>) =
             Some (example_list 22 11 0)"
    by (simp add: list_get_def example_db_def example_list_def)
  have d: "l_board_id (example_list 22 11 0) \<noteq> l_board_id (example_list 20 10 0)"
    by (simp add: example_list_def)
  have wrong: "\<not> example_verify (current_password ?pw) (u_hashed_password alice)"
    by (simp add: example_verify_def example_hash_def alice_def)
  have conflict: "update_user_me example_db ?ui alice 7 =
     Inl (HTTPException HTTP_400_BAD_REQUEST ''Email already registered'')"
    by (simp add: update_user_me_def get_by_email_def example_db_def alice_def bob_def)
  have stale: "get_current_user example_decode example_UUID example_db ''stale-token'' =
     Inl credentials_exception"
    by (simp add: get_current_user_def example_decode_def)
  have 1: "response_status (move_card example_db 99 \<lparr>move_list_id = 21, move_position = 0\<rparr> bob 7) =
     Some HTTP_404_NOT_FOUND"
    using error_kind_statuses [where db = example_db and card_id = 99 and current_user = bob,
        THEN conjunct1] nc by simp
  have 2: "response_status (move_card example_db 30 \<lparr>move_list_id = 21, move_position = 0\<rparr> bob 7) =
     Some HTTP_403_FORBIDDEN"
    using error_kind_statuses [where db = example_db and card_id = 30 and current_user = bob,
        THEN conjunct2, THEN conjunct1, rule_format, OF conjI [OF c conjI [OF l conjI [OF b other]]]]
    by simp
  have 3: "response_status (move_card example_db 30 \<lparr>move_list_id = 22, move_position = 0\<rparr> alice 7) =
     Some HTTP_400_BAD_REQUEST"
    using error_kind_statuses [where db = example_db and card_id = 30 and current_user = alice
        and move_data = "\<lparr>move_list_id = 22, move_position = 0\<rparr>" and now = 7,
        THEN conjunct2, THEN conjunct2, THEN conjunct1, rule_format,
        OF conjI [OF c conjI [OF l conjI [OF b conjI [OF own conjI [OF t d]]]]]]
    by simp
  have 4: "response_status (update_password_me example_verify example_hash example_db ?pw alice 7) =
     Some HTTP_400_BAD_REQUEST"
    using error_kind_statuses [where verify_password = example_verify and password_in = ?pw
        and current_user = alice and get_password_hash = example_hash and db = example_db
        and now = 7,
        THEN conjunct2, THEN conjunct2, THEN conjunct2, THEN conjunct1] wrong
    by simp
  have 5: "response_status (update_user_me example_db ?ui alice 7) = Some HTTP_400_BAD_REQUEST"
    using error_kind_statuses [where db = example_db and user_in = ?ui and current_user = alice
        and now = 7,
        THEN conjunct2, THEN conjunct2, THEN conjunct2, THEN conjunct2, THEN conjunct1,
        rule_format, OF conflict] conflict
    by simp
  have 6: "response_status (get_current_user example_decode example_UUID example_db ''stale-token'') =
     Some HTTP_401_UNAUTHORIZED"
    using error_kind_statuses [where decode_access_token = example_decode and UUID = example_UUID
        and db = example_db and token = "''stale-token''",
        THEN conjunct2, THEN conjunct2, THEN conjunct2, THEN conjunct2, THEN conjunct2,
        rule_format, OF stale] stale
    by (simp add: credentials_exception_def)
  from 1 2 3 4 5 6 show ?thesis by blast
qed

end
